theory Spec2Isabelle
  imports Complex_Main "HOL-Library.Product_Lexorder" "HOL-Library.AList"
begin

section \<open>Station / MODIS match-up (src/lst\_filler/data/matchup.py)\<close>

text \<open>
  The match-up pairs every station observation with the nearest MODIS grid sample and
  with the station observation that precedes it.  The embedding follows
  \<^verbatim>\<open>matchup.py\<close> function by function.

  Conventions of the embedding:
  \<^item> a float is a \<open>rat option\<close>, \<open>None\<close> being NaN; every comparison with NaN is
    false, as in numpy.  Rounding of floating-point arithmetic is not modelled;
  \<^item> a \<^verbatim>\<open>datetime64[ns]\<close> timestamp is an \<open>int\<close>, the nanoseconds since the epoch,
    an int64 other than the smallest one, which is NaT.  The difference of two
    timestamps is taken on int64 and wraps around;
  \<^item> a one-dimensional array along the dimension \<^verbatim>\<open>index\<close> is a list.
\<close>

subsection \<open>Array operations used by the window classifier\<close>

text \<open>\<^verbatim>\<open>da.pipe(abs) <= b\<close> at one element: NaN compares false.\<close>

definition abs_le :: "rat option \<Rightarrow> rat \<Rightarrow> bool" where
  "abs_le v b = (case v of None \<Rightarrow> False | Some x \<Rightarrow> \<bar>x\<bar> \<le> b)"

text \<open>
  \<^verbatim>\<open>da.shift(index=k, fill_value=f)\<close>: the data move by \<open>k\<close> positions (to the right
  for a positive \<open>k\<close>), the length is kept, the vacated positions hold \<open>f\<close>.
\<close>

definition shift :: "int \<Rightarrow> 'a \<Rightarrow> 'a list \<Rightarrow> 'a list" where
  "shift k f xs =
     (let n = length xs in
      if 0 \<le> k then replicate (min (nat k) n) f @ take (n - nat k) xs
      else drop (nat (- k)) xs @ replicate (min (nat (- k)) n) f)"

text \<open>\<^verbatim>\<open>da.where(mask)\<close>: the value where the mask holds, NaN elsewhere.\<close>

definition where_mask :: "rat option list \<Rightarrow> bool list \<Rightarrow> rat option list" where
  "where_mask xs m = map (\<lambda>(x, b). if b then x else None) (zip xs m)"

text \<open>\<^verbatim>\<open>a & b\<close> on two boolean arrays of one dimension.\<close>

definition mask_and :: "bool list \<Rightarrow> bool list \<Rightarrow> bool list" where
  "mask_and a b = map (\<lambda>(x, y). x \<and> y) (zip a b)"

subsection \<open>\<^verbatim>\<open>get_matching_and_prev\<close>\<close>

definition get_matching_and_prev :: "rat option list \<Rightarrow> bool list \<times> bool list" where
  "get_matching_and_prev time_diff_hrs =
     (let mask_match_t1 = map (\<lambda>v. abs_le v 1) time_diff_hrs;
          mask_match_t0 = shift (- 1) False mask_match_t1;
          mask_match_t0_within_4hrs =
            map (\<lambda>v. abs_le v 4) (where_mask time_diff_hrs mask_match_t0);
          mask_match_t1_with_prev = shift 1 False mask_match_t0_within_4hrs;
          mask_match_t1' = mask_and mask_match_t1 mask_match_t1_with_prev;
          mask_match_t0' = mask_and mask_match_t0 mask_match_t0_within_4hrs
      in (mask_match_t1', mask_match_t0'))"

subsection \<open>The five steps of the specification, by index\<close>

text \<open>
  The window classifier as the specification words it, one predicate per step, each a
  function of the offsets and of the position \<open>i\<close>.  The tolerances are the defaults,
  1 hour and 4 hours.  An offset is within a tolerance when it lies between minus the
  tolerance and the tolerance, both included; an undefined offset is within none.
\<close>

definition match_tolerance :: rat where
  "match_tolerance = 1"

definition lookback_tolerance :: rat where
  "lookback_tolerance = 4"

definition spec_within :: "rat option \<Rightarrow> rat \<Rightarrow> bool" where
  "spec_within v tolerance =
     (case v of None \<Rightarrow> False | Some x \<Rightarrow> - tolerance \<le> x \<and> x \<le> tolerance)"

definition spec_current :: "rat option list \<Rightarrow> nat \<Rightarrow> bool" where
  "spec_current offset i = spec_within (offset ! i) match_tolerance"

definition spec_anchor_candidate :: "rat option list \<Rightarrow> nat \<Rightarrow> bool" where
  "spec_anchor_candidate offset i =
     (if i + 1 < length offset then spec_current offset (i + 1) else False)"

definition spec_anchor_within_bound :: "rat option list \<Rightarrow> nat \<Rightarrow> bool" where
  "spec_anchor_within_bound offset i =
     (spec_anchor_candidate offset i \<and> spec_within (offset ! i) lookback_tolerance)"

definition spec_current_has_valid_anchor :: "rat option list \<Rightarrow> nat \<Rightarrow> bool" where
  "spec_current_has_valid_anchor offset i =
     (if i = 0 then False else spec_anchor_within_bound offset (i - 1))"

definition spec_is_current_match :: "rat option list \<Rightarrow> nat \<Rightarrow> bool" where
  "spec_is_current_match offset i =
     (spec_current offset i \<and> spec_current_has_valid_anchor offset i)"

definition spec_is_previous_anchor :: "rat option list \<Rightarrow> nat \<Rightarrow> bool" where
  "spec_is_previous_anchor offset i =
     (spec_anchor_candidate offset i \<and> spec_anchor_within_bound offset i)"

subsection \<open>Station frames and the MODIS grid\<close>

text \<open>
  A cell of a data frame: a float (NaN is \<open>Float None\<close>), a text or a timestamp.
\<close>

datatype cell = Float "rat option" | Str string | Datetime int

text \<open>
  One row of \<^verbatim>\<open>df_station\<close> once the level \<^verbatim>\<open>station_name\<close> is dropped from its
  index: the index \<^verbatim>\<open>datetime\<close> (a time, not NaT), the columns \<^verbatim>\<open>latitude\<close> and
  \<^verbatim>\<open>longitude\<close> (defined numbers: a station has coordinates), and the other columns
  by name, the same names in every row of one frame.
\<close>

record observation =
  datetime :: int
  latitude :: rat
  longitude :: rat
  variables :: "(string \<times> cell) list"

text \<open>
  The row after \<^verbatim>\<open>df_station["modis_LST"] = ...\<close> and
  \<^verbatim>\<open>df_station["modis_time"] = ...\<close>.
\<close>

record annotated = observation +
  modis_LST :: "rat option"
  modis_time :: int

text \<open>
  \<^verbatim>\<open>da_modis.sel(time=, y=, x=, method="nearest")\<close> at one query point: the value of
  the nearest cell (NaN where the grid holds no data) and the time coordinate of that
  cell.  The grid is a parameter of the match-up; the lookup is total.
\<close>

type_synonym grid = "int \<times> rat \<times> rat \<Rightarrow> rat option \<times> int"

datatype error = ValueError | KeyError

subsection \<open>\<^verbatim>\<open>create_modis_selection\<close>\<close>

text \<open>
  The index is set to (time, y, x) and sorted: the selection is the list of the keys of
  all rows in lexicographic order, one key per row.
\<close>

definition create_modis_selection :: "observation list \<Rightarrow> (int \<times> rat \<times> rat) list" where
  "create_modis_selection df = sort (map (\<lambda>r. (datetime r, latitude r, longitude r)) df)"

subsection \<open>Frame operations used by \<^verbatim>\<open>match_station_with_modis\<close>\<close>

text \<open>
  The two column assignments: the matched values and times are attached to the rows by
  position.
\<close>

definition attach :: "observation \<Rightarrow> rat option \<times> int \<Rightarrow> annotated" where
  "attach r s =
     \<lparr>datetime = datetime r, latitude = latitude r, longitude = longitude r,
      variables = variables r, modis_LST = fst s, modis_time = snd s\<rparr>"

definition assign_modis :: "observation list \<Rightarrow> (rat option \<times> int) list \<Rightarrow> annotated list" where
  "assign_modis df matched = map (\<lambda>(r, s). attach r s) (zip df matched)"

text \<open>
  The smallest int64 stands for NaT, as a \<^verbatim>\<open>datetime64\<close> and as a
  \<^verbatim>\<open>timedelta64\<close>.
\<close>

definition NaT :: int where
  "NaT = - (2 ^ 63)"

text \<open>An integer brought into the range of int64 by wrap-around.\<close>

definition wrap_int64 :: "int \<Rightarrow> int" where
  "wrap_int64 n = (n + 2 ^ 63) mod 2 ^ 64 - 2 ^ 63"

text \<open>
  \<^verbatim>\<open>(time_station - time_modis).dt.total_seconds() / 3600\<close> at one position.  The
  difference of the two \<^verbatim>\<open>datetime64[ns]\<close> values is an int64 count of nanoseconds
  and wraps around; it is NaT when one of them is NaT or when the wrapped difference is
  the smallest int64, and the hours of NaT are NaN.
\<close>

definition total_hours :: "int \<Rightarrow> int \<Rightarrow> rat option" where
  "total_hours t_station t_modis =
     (let d = wrap_int64 (t_station - t_modis)
      in if t_station = NaT \<or> t_modis = NaT \<or> d = NaT then None
         else Some (of_int d / 10 ^ 9 / 3600))"

text \<open>
  \<^verbatim>\<open>df.loc[mask]\<close> with a boolean mask of the length of the frame: the rows where the
  mask holds, in order, each with its index (the \<^verbatim>\<open>datetime\<close>).
\<close>

definition loc_mask :: "annotated list \<Rightarrow> bool list \<Rightarrow> (int \<times> annotated) list" where
  "loc_mask df msk = map (\<lambda>(r, b). (datetime r, r)) (filter snd (zip df msk))"

text \<open>
  \<^verbatim>\<open>df.set_index(idx)\<close> with an index object: pandas raises \<^verbatim>\<open>ValueError\<close> unless
  the index has as many entries as the frame has rows.
\<close>

definition set_index :: "(int \<times> 'r) list \<Rightarrow> int list \<Rightarrow> error + (int \<times> 'r) list" where
  "set_index df idx =
     (if length idx \<noteq> length df then Inl ValueError else Inr (zip idx (map snd df)))"

text \<open>
  The columns of an annotated row by name: the station columns, then the two assigned
  columns (an assignment to an existing name overwrites it in place).
\<close>

definition columns :: "annotated \<Rightarrow> (string \<times> cell) list" where
  "columns r =
     AList.update ''modis_time'' (Datetime (modis_time r))
       (AList.update ''modis_LST'' (Float (modis_LST r))
         ([(''latitude'', Float (Some (latitude r))),
           (''longitude'', Float (Some (longitude r)))] @ variables r))"

text \<open>The columns of a row renamed with a suffix.\<close>

definition add_suffix :: "string \<Rightarrow> (string \<times> cell) list \<Rightarrow> (string \<times> cell) list" where
  "add_suffix s cols = map (\<lambda>(n, v). (n @ s, v)) cols"

text \<open>
  \<^verbatim>\<open>left.join(right, rsuffix=s)\<close>: a left join on the index.  Every row of the left
  frame, in order, is merged with every row of the right frame that has the same index
  value (with NaN columns when there is none).  Both frames have the same column names
  here, so every column of the right frame takes the suffix.
\<close>

definition join :: "(int \<times> annotated) list \<Rightarrow> (int \<times> annotated) list \<Rightarrow> string \<Rightarrow>
    (int \<times> (string \<times> cell) list) list" where
  "join left right rsuffix =
     concat (map (\<lambda>(k, l).
       (case filter (\<lambda>(k', r). k' = k) right of
          [] \<Rightarrow> [(k, columns l @ add_suffix rsuffix (map (\<lambda>(n, v). (n, Float None)) (columns l)))]
        | ms \<Rightarrow> map (\<lambda>(k', r). (k, columns l @ add_suffix rsuffix (columns r))) ms))
       left)"

text \<open>\<^verbatim>\<open>pd.isna\<close> of one cell.\<close>

fun isna :: "cell \<Rightarrow> bool" where
  "isna (Float None) = True"
| "isna _ = False"

text \<open>The column \<open>c\<close> of a row holds a value that is not NaN.\<close>

definition notna :: "string \<Rightarrow> (string \<times> cell) list \<Rightarrow> bool" where
  "notna c cols = (case map_of cols c of None \<Rightarrow> False | Some v \<Rightarrow> \<not> isna v)"

text \<open>
  \<^verbatim>\<open>df.dropna(subset=[c])\<close>: the rows whose column \<open>c\<close> is not NaN are kept;
  pandas raises \<^verbatim>\<open>KeyError\<close> when the frame has no column \<open>c\<close>.
\<close>

definition dropna :: "string \<Rightarrow> (int \<times> (string \<times> cell) list) list \<Rightarrow>
    error + (int \<times> (string \<times> cell) list) list" where
  "dropna c df =
     (if \<exists>(k, cols) \<in> set df. c \<notin> fst ` set cols then Inl KeyError
      else Inr (filter (\<lambda>(k, cols). notna c cols) df))"

text \<open>
  \<^verbatim>\<open>df.drop(columns=cs)\<close>: the named columns are removed from every row; pandas raises
  \<^verbatim>\<open>KeyError\<close> when the frame has no column of one of the names.  The column names
  of a frame without rows are those of the frames it was joined from, which hold all
  the names dropped here.
\<close>

definition drop_columns :: "string list \<Rightarrow> (int \<times> (string \<times> cell) list) list \<Rightarrow>
    error + (int \<times> (string \<times> cell) list) list" where
  "drop_columns cs df =
     (if \<exists>(k, cols) \<in> set df. \<exists>c \<in> set cs. c \<notin> fst ` set cols then Inl KeyError
      else Inr (map (\<lambda>(k, cols). (k, filter (\<lambda>(n, v). n \<notin> set cs) cols)) df))"

subsection \<open>\<^verbatim>\<open>match_station_with_modis\<close>\<close>

definition match_station_with_modis :: "observation list \<Rightarrow> grid \<Rightarrow>
    error + (int \<times> (string \<times> cell) list) list" where
  "match_station_with_modis df_station da_modis =
     (let station_coords = create_modis_selection df_station;
          matched_lst_points = map da_modis station_coords;
          df_station' = assign_modis df_station matched_lst_points;
          time_station = map datetime df_station;
          time_modis = map snd matched_lst_points;
          time_diff_hrs = map (\<lambda>(s, m). total_hours s m) (zip time_station time_modis);
          (mask_t1, mask_t0) = get_matching_and_prev time_diff_hrs;
          df_t1 = loc_mask df_station' mask_t1
      in case set_index (loc_mask df_station' mask_t0) (map fst df_t1) of
           Inl e \<Rightarrow> Inl e
         | Inr df_t0 \<Rightarrow>
             (case dropna ''modis_LST'' (join df_t1 df_t0 ''_tm1'') of
                Inl e \<Rightarrow> Inl e
              | Inr df_joined \<Rightarrow>
                  drop_columns
                    [''modis_time_tm1'', ''modis_LST_tm1'', ''latitude_tm1'', ''longitude_tm1'']
                    df_joined))"

subsection \<open>Notions used to state the properties\<close>

text \<open>
  The frame \<^verbatim>\<open>df_station\<close> of \<^verbatim>\<open>match_station_with_modis\<close> after the two column
  assignments.
\<close>

definition annotated_frame :: "observation list \<Rightarrow> grid \<Rightarrow> annotated list" where
  "annotated_frame df_station da_modis =
     assign_modis df_station (map da_modis (create_modis_selection df_station))"

text \<open>The entry of \<^verbatim>\<open>time_diff_hrs\<close> of a row: its own time minus its matched time.\<close>

definition offset_hrs :: "annotated \<Rightarrow> rat option" where
  "offset_hrs r = total_hours (datetime r) (modis_time r)"

text \<open>The pairs (row \<open>i + 1\<close>, row \<open>i\<close>) of a frame, in order.\<close>

definition adjacent :: "'a list \<Rightarrow> ('a \<times> 'a) list" where
  "adjacent xs = zip (tl xs) (butlast xs)"

text \<open>
  The columns of the output row made of a current row \<open>c\<close> and an anchor row \<open>a\<close>:
  the joined columns without the four dropped ones.
\<close>

definition paired_columns :: "annotated \<Rightarrow> annotated \<Rightarrow> (string \<times> cell) list" where
  "paired_columns c a =
     filter (\<lambda>(n, v). n \<notin> set [''modis_time_tm1'', ''modis_LST_tm1'', ''latitude_tm1'',
                                   ''longitude_tm1''])
       (columns c @ add_suffix ''_tm1'' (columns a))"

text \<open>
  The columns of a paired record as the specification lists them: the columns of the
  current row \<open>c\<close> unsuffixed (its coordinates and variables, then its matched value
  and matched time), then the variable columns of the anchor row \<open>a\<close> with the
  suffix.
\<close>

definition spec_paired_columns :: "annotated \<Rightarrow> annotated \<Rightarrow> (string \<times> cell) list" where
  "spec_paired_columns c a =
     [(''latitude'', Float (Some (latitude c))), (''longitude'', Float (Some (longitude c)))] @
     variables c @
     [(''modis_LST'', Float (modis_LST c)), (''modis_time'', Datetime (modis_time c))] @
     add_suffix ''_tm1'' (variables a)"

text \<open>
  The window condition on a current row \<open>c\<close> and the row \<open>a\<close> before it: the
  offset of \<open>c\<close> within 1 hour and the offset of \<open>a\<close> itself within 4 hours.
\<close>

definition in_window :: "annotated \<times> annotated \<Rightarrow> bool" where
  "in_window p = (abs_le (offset_hrs (fst p)) 1 \<and> abs_le (offset_hrs (snd p)) 4)"

text \<open>
  The condition under which the pair of a current row and the row before it is emitted:
  the window condition, and a matched value of the current row that is not NaN.
\<close>

definition emitted :: "annotated \<times> annotated \<Rightarrow> bool" where
  "emitted p = (in_window p \<and> modis_LST (fst p) \<noteq> None)"

text \<open>The nanoseconds of one hour, the unit of the timestamps.\<close>

definition hour :: int where
  "hour = 3600 * 10 ^ 9"

text \<open>
  The column names that the match-up itself writes or drops.  A station frame is taken
  to have none of them among its variable columns.
\<close>

definition reserved_names :: "string list" where
  "reserved_names =
     [''latitude'', ''longitude'', ''modis_LST'', ''modis_time'',
      ''modis_time_tm1'', ''modis_LST_tm1'', ''latitude_tm1'', ''longitude_tm1'']"

subsection \<open>Example inputs\<close>

text \<open>A station row at time \<open>t\<close> with one variable column, the temperature.\<close>

definition station :: "int \<Rightarrow> rat \<Rightarrow> observation" where
  "station t temp =
     \<lparr>datetime = t, latitude = 52, longitude = 13,
      variables = [(''temperature'', Float (Some temp))]\<rparr>"

text \<open>
A station row at time \<open>t\<close> whose one variable column bears the name \<open>n\<close>.
\<close>

definition station_named :: "string \<Rightarrow> int \<Rightarrow> rat \<Rightarrow> observation" where
  "station_named n t v =
     \<lparr>datetime = t, latitude = 52, longitude = 13, variables = [(n, Float (Some v))]\<rparr>"

text \<open>A grid with a sample at every query time, of value 300.\<close>

definition grid_exact :: grid where
  "grid_exact = (\<lambda>(t, y, x). (Some 300, t))"

text \<open>The same grid with no data (NaN) at time 0.\<close>

definition grid_nan_first :: grid where
  "grid_nan_first = (\<lambda>(t, y, x). (if t = 0 then None else Some 300, t))"

text \<open>The same grid with no data (NaN) at the time of one hour.\<close>

definition grid_nan_second :: grid where
  "grid_nan_second = (\<lambda>(t, y, x). (if t = hour then None else Some 300, t))"

text \<open>
  The grid of the scenario of the specification: overpasses at time 0 and at three hours,
  the queries after time 0 matched with the second one.
\<close>

definition grid_scenario :: grid where
  "grid_scenario = (\<lambda>(t, y, x). if t = 0 then (Some 300, 0) else (Some 301, 3 * hour))"


section \<open>Properties of the window classifier\<close>

lemma length_shift [simp]: "length (shift k f xs) = length xs"
  by (auto simp: shift_def Let_def)

lemma nth_shift_right:
  "i < length xs \<Longrightarrow> shift 1 f xs ! i = (if i = 0 then f else xs ! (i - 1))"
  by (cases xs) (auto simp: shift_def Let_def nth_Cons' min_def)

lemma nth_shift_left:
  "i < length xs \<Longrightarrow>
   shift (- 1) f xs ! i = (if i + 1 < length xs then xs ! (i + 1) else f)"
  by (auto simp: shift_def Let_def nth_append min_def)

lemma length_where_mask [simp]: "length (where_mask xs m) = min (length xs) (length m)"
  by (simp add: where_mask_def)

lemma nth_where_mask:
  "i < length xs \<Longrightarrow> i < length m \<Longrightarrow> where_mask xs m ! i = (if m ! i then xs ! i else None)"
  by (simp add: where_mask_def)

lemma length_mask_and [simp]: "length (mask_and a b) = min (length a) (length b)"
  by (simp add: mask_and_def)

lemma nth_mask_and:
  "i < length a \<Longrightarrow> i < length b \<Longrightarrow> mask_and a b ! i = (a ! i \<and> b ! i)"
  by (simp add: mask_and_def)

lemma abs_le_None [simp]: "abs_le None b = False"
  by (simp add: abs_le_def)

lemma abs_le_Some [simp]: "abs_le (Some x) b = (\<bar>x\<bar> \<le> b)"
  by (simp add: abs_le_def)

lemma spec_within_abs_le: "spec_within v tolerance = abs_le v tolerance"
  by (cases v) (auto simp: spec_within_def)

lemma length_get_matching_and_prev [simp]:
  "length (fst (get_matching_and_prev offset)) = length offset"
  "length (snd (get_matching_and_prev offset)) = length offset"
  by (simp_all add: get_matching_and_prev_def Let_def)

lemma nth_mask_t1:
  assumes "i < length offset"
  shows "fst (get_matching_and_prev offset) ! i =
         (abs_le (offset ! i) 1 \<and> 0 < i \<and> abs_le (offset ! (i - 1)) 4)"
  using assms
  by (auto simp: get_matching_and_prev_def Let_def nth_mask_and nth_shift_right
      nth_shift_left nth_where_mask)

lemma nth_mask_t0:
  assumes "i < length offset"
  shows "snd (get_matching_and_prev offset) ! i =
         (i + 1 < length offset \<and> abs_le (offset ! (i + 1)) 1 \<and> abs_le (offset ! i) 4)"
  using assms
  by (auto simp: get_matching_and_prev_def Let_def nth_mask_and nth_shift_right
      nth_shift_left nth_where_mask)

text \<open>
  Claim C1.  With the default tolerances, \<^verbatim>\<open>get_matching_and_prev\<close> returns exactly
  the two masks of the five-step algorithm of the specification: at every position the
  first mask is \<open>is_current_match\<close> and the second is \<open>is_previous_anchor\<close>, both of the
  length of the offsets, the comparisons being inclusive at the tolerances.
\<close>

theorem get_matching_and_prev_refines_spec:
  "get_matching_and_prev offset =
     (map (spec_is_current_match offset) [0 ..< length offset],
      map (spec_is_previous_anchor offset) [0 ..< length offset])"
proof -
  have "fst (get_matching_and_prev offset) =
        map (spec_is_current_match offset) [0 ..< length offset]"
    by (rule nth_equalityI)
      (auto simp: nth_mask_t1 spec_is_current_match_def spec_current_def
        spec_current_has_valid_anchor_def spec_anchor_within_bound_def
        spec_anchor_candidate_def spec_within_abs_le match_tolerance_def
        lookback_tolerance_def)
  moreover have "snd (get_matching_and_prev offset) =
        map (spec_is_previous_anchor offset) [0 ..< length offset]"
    by (rule nth_equalityI)
      (auto simp: nth_mask_t0 spec_is_previous_anchor_def spec_current_def
        spec_anchor_within_bound_def spec_anchor_candidate_def spec_within_abs_le
        match_tolerance_def lookback_tolerance_def)
  ultimately show ?thesis
    by (simp add: prod_eq_iff)
qed

text \<open>
  Offsets at the boundaries: the pair of the first two positions is accepted with the
  offsets of exactly minus four hours and exactly one hour; the pair of the third and
  fourth positions is refused, the offset of its anchor being 4.01 hours; the last
  position, 1.01 hours off, is no current match.
\<close>

theorem get_matching_and_prev_refines_spec_witness:
  "get_matching_and_prev [Some (- 4), Some 1, Some (401 / 100), Some (- 1), Some (101 / 100)] =
     ([False, True, False, False, False], [True, False, False, False, False]) \<and>
   map (spec_is_current_match
          [Some (- 4), Some 1, Some (401 / 100), Some (- 1), Some (101 / 100)]) [0 ..< 5] =
     [False, True, False, False, False] \<and>
   map (spec_is_previous_anchor
          [Some (- 4), Some 1, Some (401 / 100), Some (- 1), Some (101 / 100)]) [0 ..< 5] =
     [True, False, False, False, False]"
proof -
  have m: "get_matching_and_prev
             [Some (- 4), Some 1, Some (401 / 100), Some (- 1), Some (101 / 100)] =
           ([False, True, False, False, False], [True, False, False, False, False])"
    by code_simp
  have l: "length [Some (- 4), Some 1, Some (401 / 100), Some (- 1), Some (101 / 100 :: rat)] = 5"
    by simp
  from get_matching_and_prev_refines_spec
         [of "[Some (- 4), Some 1, Some (401 / 100), Some (- 1), Some (101 / 100)]"]
  show ?thesis
    unfolding m l by simp
qed

section \<open>The frames selected by the two masks\<close>

lemma mask_t1_shift:
  "fst (get_matching_and_prev offset) = shift 1 False (snd (get_matching_and_prev offset))"
proof (rule nth_equalityI)
  fix i assume "i < length (fst (get_matching_and_prev offset))"
  then have i: "i < length offset" by simp
  have s: "shift 1 False (snd (get_matching_and_prev offset)) ! i =
        (if i = 0 then False else snd (get_matching_and_prev offset) ! (i - 1))"
    using i by (intro nth_shift_right) simp
  show "fst (get_matching_and_prev offset) ! i =
        shift 1 False (snd (get_matching_and_prev offset)) ! i"
  proof (cases "i = 0")
    case True
    then show ?thesis unfolding s nth_mask_t1[OF i] by simp
  next
    case False
    with i have j: "i - 1 < length offset" and e: "i - 1 + 1 = i" by simp_all
    show ?thesis unfolding s nth_mask_t1[OF i] nth_mask_t0[OF j] e
      using False i by auto
  qed
qed simp

lemma mask_t0_last:
  "offset \<noteq> [] \<Longrightarrow> \<not> last (snd (get_matching_and_prev offset))"
proof -
  assume ne: "offset \<noteq> []"
  then have "snd (get_matching_and_prev offset) \<noteq> []"
    by (metis length_get_matching_and_prev(2) length_0_conv)
  then have "last (snd (get_matching_and_prev offset)) =
             snd (get_matching_and_prev offset) ! (length offset - 1)"
    by (simp add: last_conv_nth)
  also have "\<dots> = False"
    using ne by (subst nth_mask_t0) simp_all
  finally show ?thesis by simp
qed

lemma shift_right_one: "m \<noteq> [] \<Longrightarrow> shift 1 f m = f # butlast m"
  by (cases m) (auto simp: shift_def Let_def butlast_conv_take)

lemma sel_shift:
  assumes "length xs = length m" "m \<noteq> []"
  shows "filter snd (zip xs (shift 1 False m)) = filter snd (zip (tl xs) (butlast m))"
  using assms by (cases xs) (auto simp: shift_right_one)

lemma sel_butlast:
  assumes "length xs = length m" "m \<noteq> []" "\<not> last m"
  shows "filter snd (zip xs m) = filter snd (zip (butlast xs) (butlast m))"
proof -
  from assms have "xs \<noteq> []" by auto
  then have "zip xs m = zip (butlast xs @ [last xs]) (butlast m @ [last m])"
    using \<open>m \<noteq> []\<close> by (metis append_butlast_last_id)
  also have "\<dots> = zip (butlast xs) (butlast m) @ [(last xs, last m)]"
    using assms by (subst zip_append) auto
  finally show ?thesis using assms by simp
qed

lemma sel_zip:
  "length xs = length ys \<Longrightarrow> length ys = length m \<Longrightarrow>
   zip (map fst (filter snd (zip xs m))) (map fst (filter snd (zip ys m))) =
   map fst (filter snd (zip (zip xs ys) m))"
  by (induction xs ys m rule: list_induct3) auto

lemma sel_fst:
  "length xs = length ys \<Longrightarrow>
   map fst (filter snd (zip xs (map P (zip xs ys)))) = map fst (filter P (zip xs ys))"
  by (induction xs ys rule: list_induct2) auto

lemma sel_snd:
  "length xs = length ys \<Longrightarrow>
   map fst (filter snd (zip ys (map P (zip xs ys)))) = map snd (filter P (zip xs ys))"
  by (induction xs ys rule: list_induct2) auto

lemma length_adjacent [simp]: "length (adjacent xs) = length xs - 1"
  by (simp add: adjacent_def)

lemma nth_adjacent:
  "i + 1 < length xs \<Longrightarrow> adjacent xs ! i = (xs ! (i + 1), xs ! i)"
  by (simp add: adjacent_def nth_tl nth_butlast)

lemma butlast_mask_t0:
  "butlast (snd (get_matching_and_prev (map offset_hrs rows))) = map in_window (adjacent rows)"
proof (rule nth_equalityI)
  show "length (butlast (snd (get_matching_and_prev (map offset_hrs rows)))) =
        length (map in_window (adjacent rows))" by simp
next
  fix i assume "i < length (butlast (snd (get_matching_and_prev (map offset_hrs rows))))"
  then have i: "i + 1 < length rows" by simp
  then have i': "i < length (map offset_hrs rows)" by simp
  have "butlast (snd (get_matching_and_prev (map offset_hrs rows))) ! i =
        snd (get_matching_and_prev (map offset_hrs rows)) ! i"
    using i by (simp add: nth_butlast)
  also have "\<dots> = in_window (adjacent rows ! i)"
    unfolding nth_mask_t0[OF i'] using i by (simp add: nth_adjacent in_window_def)
  finally show "butlast (snd (get_matching_and_prev (map offset_hrs rows))) ! i =
        map in_window (adjacent rows) ! i"
    using i by simp
qed

lemma selected_t0:
  "map fst (filter snd (zip rows (snd (get_matching_and_prev (map offset_hrs rows))))) =
   map snd (filter in_window (adjacent rows))"
proof (cases "rows = []")
  case True
  then show ?thesis by (simp add: adjacent_def)
next
  case False
  let ?t0 = "snd (get_matching_and_prev (map offset_hrs rows))"
  have ne: "?t0 \<noteq> []" using False by (metis length_get_matching_and_prev(2) length_0_conv length_map)
  have l: "\<not> last ?t0" using False by (intro mask_t0_last) simp
  have "filter snd (zip rows ?t0) = filter snd (zip (butlast rows) (butlast ?t0))"
    using ne l by (intro sel_butlast) simp_all
  then show ?thesis
    unfolding butlast_mask_t0 adjacent_def by (simp add: sel_snd)
qed

lemma selected_t1:
  "map fst (filter snd (zip rows (fst (get_matching_and_prev (map offset_hrs rows))))) =
   map fst (filter in_window (adjacent rows))"
proof (cases "rows = []")
  case True
  then show ?thesis by (simp add: adjacent_def)
next
  case False
  let ?t0 = "snd (get_matching_and_prev (map offset_hrs rows))"
  have ne: "?t0 \<noteq> []" using False by (metis length_get_matching_and_prev(2) length_0_conv length_map)
  have "filter snd (zip rows (shift 1 False ?t0)) = filter snd (zip (tl rows) (butlast ?t0))"
    using ne by (intro sel_shift) simp_all
  then show ?thesis
    unfolding mask_t1_shift butlast_mask_t0 adjacent_def by (simp add: sel_fst)
qed

section \<open>The match-up as a function of the annotated frame\<close>

lemma length_create_modis_selection [simp]:
  "length (create_modis_selection df) = length df"
  by (simp add: create_modis_selection_def)

lemma attach_simps [simp]:
  "datetime (attach r s) = datetime r"
  "latitude (attach r s) = latitude r"
  "longitude (attach r s) = longitude r"
  "variables (attach r s) = variables r"
  "modis_LST (attach r s) = fst s"
  "modis_time (attach r s) = snd s"
  by (simp_all add: attach_def)

lemma length_annotated_frame [simp]: "length (annotated_frame df g) = length df"
  by (simp add: annotated_frame_def assign_modis_def)

lemma datetime_assign_modis:
  "length matched = length df \<Longrightarrow> map datetime (assign_modis df matched) = map datetime df"
  by (induction matched df rule: list_induct2) (simp_all add: assign_modis_def)

lemma datetime_annotated_frame [simp]:
  "map datetime (annotated_frame df g) = map datetime df"
  by (simp add: annotated_frame_def datetime_assign_modis)

lemma time_diff_hrs_assign_modis:
  "map (\<lambda>(s, m). total_hours s m) (zip (map datetime df) (map snd matched)) =
   map offset_hrs (assign_modis df matched)"
  by (simp add: assign_modis_def zip_map_map offset_hrs_def split_def)

lemma loc_mask_conv:
  "loc_mask df m = map (\<lambda>r. (datetime r, r)) (map fst (filter snd (zip df m)))"
  by (simp add: loc_mask_def split_def)

lemma loc_mask_t1:
  "loc_mask rows (fst (get_matching_and_prev (map offset_hrs rows))) =
   map (\<lambda>p. (datetime (fst p), fst p)) (filter in_window (adjacent rows))"
  unfolding loc_mask_conv selected_t1 by simp

lemma loc_mask_t0:
  "loc_mask rows (snd (get_matching_and_prev (map offset_hrs rows))) =
   map (\<lambda>p. (datetime (snd p), snd p)) (filter in_window (adjacent rows))"
  unfolding loc_mask_conv selected_t0 by simp

lemma set_index_t0:
  "set_index (loc_mask rows (snd (get_matching_and_prev (map offset_hrs rows))))
     (map fst (loc_mask rows (fst (get_matching_and_prev (map offset_hrs rows))))) =
   Inr (map (\<lambda>p. (datetime (fst p), snd p)) (filter in_window (adjacent rows)))"
  unfolding loc_mask_t1 loc_mask_t0
  by (simp add: set_index_def zip_map_map zip_same_conv_map)

lemma match_station_with_modis_frames:
  "match_station_with_modis df g =
     (case dropna ''modis_LST''
         (join (map (\<lambda>p. (datetime (fst p), fst p)) (filter in_window (adjacent (annotated_frame df g))))
               (map (\<lambda>p. (datetime (fst p), snd p)) (filter in_window (adjacent (annotated_frame df g))))
               ''_tm1'') of
        Inl e \<Rightarrow> Inl e
      | Inr df_joined \<Rightarrow>
          drop_columns [''modis_time_tm1'', ''modis_LST_tm1'', ''latitude_tm1'', ''longitude_tm1'']
            df_joined)"
proof -
  have td: "map (\<lambda>(s, m). total_hours s m)
              (zip (map datetime df) (map snd (map g (create_modis_selection df)))) =
            map offset_hrs (annotated_frame df g)"
    unfolding annotated_frame_def by (rule time_diff_hrs_assign_modis)
  show ?thesis
    unfolding match_station_with_modis_def Let_def td
    unfolding annotated_frame_def[symmetric] case_prod_beta
    unfolding set_index_t0
    unfolding loc_mask_t1
    by simp
qed

lemma filter_same_key:
  "distinct (map f xs) \<Longrightarrow> p \<in> set xs \<Longrightarrow> filter (\<lambda>q. f q = f p) xs = [p]"
proof (induction xs)
  case Nil
  then show ?case by simp
next
  case (Cons x xs)
  show ?case
  proof (cases "p = x")
    case True
    from Cons.prems(1) have "f x \<notin> f ` set xs" by simp
    then have "\<forall>q \<in> set xs. f q \<noteq> f x" by (metis imageI)
    then have "filter (\<lambda>q. f q = f x) xs = []"
      by (simp add: filter_empty_conv)
    with True show ?thesis by simp
  next
    case False
    with Cons.prems have "p \<in> set xs" and "f x \<noteq> f p" by auto
    with Cons show ?thesis by simp
  qed
qed

lemma filter_key_map:
  "filter (\<lambda>(k', r). k' = k) (map (\<lambda>p. (f p, snd p)) W) =
   map (\<lambda>q. (f q, snd q)) (filter (\<lambda>q. f q = k) W)"
  by (induction W) auto

lemma join_same_keys:
  "join (map (\<lambda>p. (f p, fst p)) W) (map (\<lambda>p. (f p, snd p)) W) sfx =
   concat (map (\<lambda>p. map (\<lambda>q. (f p, columns (fst p) @ add_suffix sfx (columns (snd q))))
                       (filter (\<lambda>q. f q = f p) W)) W)"
proof -
  have row: "(case filter (\<lambda>(k', r). k' = f p) (map (\<lambda>p. (f p, snd p)) W) of
           [] \<Rightarrow> [(f p, columns (fst p) @
                     add_suffix sfx (map (\<lambda>(n, v). (n, Float None)) (columns (fst p))))]
         | y # ys \<Rightarrow> map (\<lambda>(k', r). (f p, columns (fst p) @ add_suffix sfx (columns r))) (y # ys)) =
        map (\<lambda>q. (f p, columns (fst p) @ add_suffix sfx (columns (snd q))))
          (filter (\<lambda>q. f q = f p) W)"
    if "p \<in> set W" for p
  proof -
    have "p \<in> set (filter (\<lambda>q. f q = f p) W)" using that by simp
    then obtain y ys where yys: "filter (\<lambda>q. f q = f p) W = y # ys"
      by (cases "filter (\<lambda>q. f q = f p) W") auto
    show ?thesis
      unfolding filter_key_map yys by simp
  qed
  have "map (\<lambda>(k, l).
       (case filter (\<lambda>(k', r). k' = k) (map (\<lambda>p. (f p, snd p)) W) of
          [] \<Rightarrow> [(k, columns l @ add_suffix sfx (map (\<lambda>(n, v). (n, Float None)) (columns l)))]
        | ms \<Rightarrow> map (\<lambda>(k', r). (k, columns l @ add_suffix sfx (columns r))) ms))
       (map (\<lambda>p. (f p, fst p)) W) =
       map (\<lambda>p. map (\<lambda>q. (f p, columns (fst p) @ add_suffix sfx (columns (snd q))))
                       (filter (\<lambda>q. f q = f p) W)) W"
    unfolding map_map by (rule map_cong[OF refl]) (simp only: o_def prod.case row)
  then show ?thesis
    unfolding join_def by (rule arg_cong)
qed

lemma join_distinct_keys:
  assumes "distinct (map f W)"
  shows "join (map (\<lambda>p. (f p, fst p)) W) (map (\<lambda>p. (f p, snd p)) W) sfx =
         map (\<lambda>p. (f p, columns (fst p) @ add_suffix sfx (columns (snd p)))) W"
proof -
  have "concat (map (\<lambda>p. map (\<lambda>q. (f p, columns (fst p) @ add_suffix sfx (columns (snd q))))
                       (filter (\<lambda>q. f q = f p) W)) W) =
        concat (map (\<lambda>p. [(f p, columns (fst p) @ add_suffix sfx (columns (snd p)))]) W)"
    by (intro arg_cong[where f = concat] map_cong refl) (simp add: filter_same_key[OF assms])
  then show ?thesis
    unfolding join_same_keys by simp
qed

lemma columns_names:
  "''modis_time'' \<in> fst ` set (columns r)" "''modis_LST'' \<in> fst ` set (columns r)"
  "''latitude'' \<in> fst ` set (columns r)" "''longitude'' \<in> fst ` set (columns r)"
  by (simp_all add: columns_def dom_update)

lemma add_suffix_names: "fst ` set (add_suffix s cols) = (\<lambda>n. n @ s) ` fst ` set cols"
  by (force simp: add_suffix_def)

lemma joined_names:
  "set [''modis_time_tm1'', ''modis_LST_tm1'', ''latitude_tm1'', ''longitude_tm1'']
   \<subseteq> fst ` set (columns c @ add_suffix ''_tm1'' (columns a))"
proof -
  have "''modis_time'' @ ''_tm1'' \<in> (\<lambda>n. n @ ''_tm1'') ` fst ` set (columns a)"
       "''modis_LST'' @ ''_tm1'' \<in> (\<lambda>n. n @ ''_tm1'') ` fst ` set (columns a)"
       "''latitude'' @ ''_tm1'' \<in> (\<lambda>n. n @ ''_tm1'') ` fst ` set (columns a)"
       "''longitude'' @ ''_tm1'' \<in> (\<lambda>n. n @ ''_tm1'') ` fst ` set (columns a)"
    by (intro imageI columns_names)+
  then show ?thesis
    by (simp add: image_Un add_suffix_names)
qed

lemma drop_columns_Inr:
  assumes "\<And>k cols. (k, cols) \<in> set df \<Longrightarrow> set cs \<subseteq> fst ` set cols"
  shows "drop_columns cs df =
         Inr (map (\<lambda>(k, cols). (k, filter (\<lambda>(n, v). n \<notin> set cs) cols)) df)"
proof -
  have "\<not> (\<exists>(k, cols) \<in> set df. \<exists>c \<in> set cs. c \<notin> fst ` set cols)"
    using assms by blast
  then show ?thesis
    unfolding drop_columns_def by (simp only: if_False)
qed

lemma map_of_columns_LST:
  "map_of (columns c @ X) ''modis_LST'' = Some (Float (modis_LST c))"
  by (simp add: columns_def update_conv' map_add_def)

lemma dropna_Inr:
  assumes "\<And>k cols. (k, cols) \<in> set df \<Longrightarrow> c \<in> fst ` set cols"
  shows "dropna c df = Inr (filter (\<lambda>(k, cols). notna c cols) df)"
proof -
  have "\<not> (\<exists>(k, cols) \<in> set df. c \<notin> fst ` set cols)"
    using assms by blast
  then show ?thesis
    unfolding dropna_def by (simp only: if_False)
qed

lemma notna_joined: "notna ''modis_LST'' (columns c @ X) = (modis_LST c \<noteq> None)"
proof -
  have "isna (Float (modis_LST c)) = (modis_LST c = None)"
    by (cases "modis_LST c") simp_all
  then show ?thesis
    by (simp add: notna_def map_of_columns_LST del: map_of_append)
qed

lemma filter_notna_joined:
  "filter (\<lambda>(k, cols). notna ''modis_LST'' cols) (map (\<lambda>q. (k, columns c @ X q)) qs) =
   (if modis_LST c \<noteq> None then map (\<lambda>q. (k, columns c @ X q)) qs else [])"
  by (simp add: filter_map o_def notna_joined)

lemma concat_map_if:
  "concat (map (\<lambda>p. if C p then F p else []) W) = concat (map F (filter C W))"
  by (induction W) simp_all

lemma match_station_with_modis_general:
  "match_station_with_modis df g =
   Inr (concat (map (\<lambda>p. map (\<lambda>q. (datetime (fst p), paired_columns (fst p) (snd q)))
                             (filter (\<lambda>q. datetime (fst q) = datetime (fst p))
                                (filter in_window (adjacent (annotated_frame df g)))))
                    (filter emitted (adjacent (annotated_frame df g)))))"
proof -
  define W where "W = filter in_window (adjacent (annotated_frame df g))"
  define J where "J = (\<lambda>p :: annotated \<times> annotated. map (\<lambda>q. (datetime (fst p),
                          columns (fst p) @ add_suffix ''_tm1'' (columns (snd q))))
                        (filter (\<lambda>q. datetime (fst q) = datetime (fst p)) W))"
  define D where "D = [''modis_time_tm1'', ''modis_LST_tm1'', ''latitude_tm1'', ''longitude_tm1'']"
  have j: "join (map (\<lambda>p. (datetime (fst p), fst p)) W)
                (map (\<lambda>p. (datetime (fst p), snd p)) W) ''_tm1'' = concat (map J W)"
    unfolding J_def by (rule join_same_keys)
  have "''modis_LST'' \<in> fst ` set cols" if "(k, cols) \<in> set (concat (map J W))" for k cols
    using that columns_names(2) unfolding J_def by (auto simp: image_Un)
  then have dn: "dropna ''modis_LST'' (concat (map J W)) =
        Inr (filter (\<lambda>(k, cols). notna ''modis_LST'' cols) (concat (map J W)))"
    by (rule dropna_Inr)
  have "filter (\<lambda>(k, cols). notna ''modis_LST'' cols) (concat (map J W)) =
        concat (map (\<lambda>p. if modis_LST (fst p) \<noteq> None then J p else []) W)"
    unfolding filter_concat map_map o_def J_def filter_notna_joined ..
  also have "\<dots> = concat (map J (filter (\<lambda>p. modis_LST (fst p) \<noteq> None) W))"
    by (rule concat_map_if)
  also have "filter (\<lambda>p. modis_LST (fst p) \<noteq> None) W = filter emitted (adjacent (annotated_frame df g))"
    unfolding W_def emitted_def by (simp add: conj_commute)
  finally have d: "dropna ''modis_LST'' (concat (map J W)) =
        Inr (concat (map J (filter emitted (adjacent (annotated_frame df g)))))"
    unfolding dn by simp
  have names: "set D \<subseteq> fst ` set cols"
    if "(k, cols) \<in> set (concat (map J (filter emitted (adjacent (annotated_frame df g)))))"
    for k cols
    using that joined_names unfolding J_def D_def by auto
  have "match_station_with_modis df g =
        drop_columns D (concat (map J (filter emitted (adjacent (annotated_frame df g)))))"
    unfolding match_station_with_modis_frames W_def[symmetric] j d D_def by simp
  also have "\<dots> = Inr (map (\<lambda>(k, cols). (k, filter (\<lambda>(n, v). n \<notin> set D) cols))
                      (concat (map J (filter emitted (adjacent (annotated_frame df g))))))"
    using names by (rule drop_columns_Inr)
  also have "map (\<lambda>(k, cols). (k, filter (\<lambda>(n, v). n \<notin> set D) cols))
                      (concat (map J (filter emitted (adjacent (annotated_frame df g))))) =
     concat (map (\<lambda>p. map (\<lambda>q. (datetime (fst p), paired_columns (fst p) (snd q)))
                             (filter (\<lambda>q. datetime (fst q) = datetime (fst p)) W))
                    (filter emitted (adjacent (annotated_frame df g))))"
    unfolding map_concat map_map J_def paired_columns_def D_def o_def by simp
  finally show ?thesis unfolding W_def .
qed

section \<open>Groups with distinct and with increasing timestamps\<close>

lemma map_fst_adjacent: "map fst (adjacent xs) = tl xs"
  by (simp add: adjacent_def)

lemma map_snd_adjacent: "map snd (adjacent xs) = butlast xs"
  by (simp add: adjacent_def)

lemma distinct_window_keys:
  assumes "distinct (map datetime df)"
  shows "distinct (map (\<lambda>q. datetime (fst q)) (filter P (adjacent (annotated_frame df g))))"
proof -
  have "distinct (map datetime (tl (annotated_frame df g)))"
    using assms distinct_tl[of "map datetime (annotated_frame df g)"]
    by (simp add: map_tl)
  moreover have "map (\<lambda>q. datetime (fst q)) (adjacent (annotated_frame df g)) =
                 map datetime (map fst (adjacent (annotated_frame df g)))"
    by (simp add: o_def)
  ultimately have "distinct (map (\<lambda>q. datetime (fst q)) (adjacent (annotated_frame df g)))"
    by (simp only: map_fst_adjacent)
  then show ?thesis
    by (rule distinct_map_filter)
qed

lemma match_station_with_modis_distinct:
  assumes "distinct (map datetime df)"
  shows "match_station_with_modis df g =
         Inr (map (\<lambda>p. (datetime (fst p), paired_columns (fst p) (snd p)))
                (filter emitted (adjacent (annotated_frame df g))))"
proof -
  let ?W = "filter in_window (adjacent (annotated_frame df g))"
  have one: "filter (\<lambda>q. datetime (fst q) = datetime (fst p)) ?W = [p]"
    if "p \<in> set (filter emitted (adjacent (annotated_frame df g)))" for p
  proof -
    from that have "p \<in> set ?W" by (simp add: emitted_def)
    with distinct_window_keys[OF assms] show ?thesis
      by (rule filter_same_key)
  qed
  have "concat (map (\<lambda>p. map (\<lambda>q. (datetime (fst p), paired_columns (fst p) (snd q)))
                             (filter (\<lambda>q. datetime (fst q) = datetime (fst p)) ?W))
                    (filter emitted (adjacent (annotated_frame df g)))) =
        concat (map (\<lambda>p. [(datetime (fst p), paired_columns (fst p) (snd p))])
                    (filter emitted (adjacent (annotated_frame df g))))"
    by (intro arg_cong[where f = concat] map_cong refl) (simp only: one list.map)
  then show ?thesis
    unfolding match_station_with_modis_general by simp
qed

lemma sorted_keys:
  assumes "sorted_wrt (<) (map datetime df)"
  shows "sorted (map (\<lambda>r. (datetime r, latitude r, longitude r)) df)"
proof -
  have "sorted_wrt (\<lambda>r s. datetime r < datetime s) df"
    using assms by (simp add: sorted_wrt_map)
  then have "sorted_wrt (\<lambda>r s. (datetime r, latitude r, longitude r) \<le>
                               (datetime s, latitude s, longitude s)) df"
    by (rule sorted_wrt_mono_rel[rotated]) (simp add: less_eq_prod_def)
  then show ?thesis
    by (simp add: sorted_wrt_map)
qed

lemma create_modis_selection_sorted:
  "sorted_wrt (<) (map datetime df) \<Longrightarrow>
   create_modis_selection df = map (\<lambda>r. (datetime r, latitude r, longitude r)) df"
  unfolding create_modis_selection_def by (intro sorted_sort_id sorted_keys)

lemma annotated_frame_sorted:
  "sorted_wrt (<) (map datetime df) \<Longrightarrow>
   annotated_frame df g = map (\<lambda>r. attach r (g (datetime r, latitude r, longitude r))) df"
  by (simp add: annotated_frame_def create_modis_selection_sorted assign_modis_def
      zip_map2 zip_same_conv_map o_def)

section \<open>Properties of the match-up\<close>

lemma adjacent_short: "length xs \<le> 1 \<Longrightarrow> adjacent xs = []"
  by (cases xs) (simp_all add: adjacent_def)

text \<open>
  Claim C5.  The first position of a group is never a current match: the first mask is
  false at position 0 for every non-empty offset sequence.  A group of a single
  observation gives no paired record, and the result is the empty table, not an error.
\<close>

theorem first_row_never_current_match:
  "\<not> fst (get_matching_and_prev (v # offset)) ! 0 \<and>
   match_station_with_modis [r] da_modis = Inr []"
proof
  show "\<not> fst (get_matching_and_prev (v # offset)) ! 0"
    by (subst nth_mask_t1) simp_all
  have "adjacent (annotated_frame [r] da_modis) = []"
    by (rule adjacent_short) simp
  then show "match_station_with_modis [r] da_modis = Inr []"
    unfolding match_station_with_modis_general by simp
qed

text \<open>
  Claim C6.  For a group whose timestamps are strictly increasing, the selection holds
  exactly one key (time, y, x) per observation, in the order of the observations: the
  sort by time, y and x changes nothing.  The matched values and times are therefore
  attached to the row they were looked up for.
\<close>

theorem create_modis_selection_index_aligned:
  assumes "sorted_wrt (<) (map datetime df)"
  shows "create_modis_selection df = map (\<lambda>r. (datetime r, latitude r, longitude r)) df \<and>
         length (create_modis_selection df) = length df \<and>
         annotated_frame df da_modis =
           map (\<lambda>r. attach r (da_modis (datetime r, latitude r, longitude r))) df"
  using assms
  by (simp add: create_modis_selection_sorted annotated_frame_sorted)

text \<open>The group of the scenario of the specification, at the times 0, 1 and 3 hours.\<close>

theorem create_modis_selection_index_aligned_witness:
  "sorted_wrt (<) (map datetime [station 0 20, station hour 21, station (3 * hour) 22]) \<and>
   create_modis_selection [station 0 20, station hour 21, station (3 * hour) 22] =
     [(0, 52, 13), (hour, 52, 13), (3 * hour, 52, 13)] \<and>
   length (create_modis_selection [station 0 20, station hour 21, station (3 * hour) 22]) = 3 \<and>
   annotated_frame [station 0 20, station hour 21, station (3 * hour) 22] grid_scenario =
     [attach (station 0 20) (Some 300, 0), attach (station hour 21) (Some 301, 3 * hour),
      attach (station (3 * hour) 22) (Some 301, 3 * hour)]"
proof -
  have s: "sorted_wrt (<) (map datetime [station 0 20, station hour 21, station (3 * hour) 22])"
    by (simp add: station_def hour_def)
  show ?thesis
    using s create_modis_selection_index_aligned[OF s, of grid_scenario]
    by (simp add: station_def hour_def grid_scenario_def)
qed

text \<open>
  Claim C7 says that a group with non-monotonic or duplicate timestamps is validated and
  rejected before the window classification.  The source has no such validation: a
  group whose second row is earlier than its first is processed, and a row is paired
  with the later row before it; so is a group of two rows with the same timestamp.
\<close>

theorem unsorted_group_not_rejected:
  "\<not> sorted_wrt (<) (map datetime [station hour 21, station 0 20]) \<and>
   match_station_with_modis [station hour 21, station 0 20] grid_exact =
     Inr [(0, [(''latitude'', Float (Some 52)), (''longitude'', Float (Some 13)),
               (''temperature'', Float (Some 20)), (''modis_LST'', Float (Some 300)),
               (''modis_time'', Datetime hour), (''temperature_tm1'', Float (Some 21))])] \<and>
   \<not> distinct (map datetime [station 0 20, station 0 21]) \<and>
   match_station_with_modis [station 0 20, station 0 21] grid_exact =
     Inr [(0, [(''latitude'', Float (Some 52)), (''longitude'', Float (Some 13)),
               (''temperature'', Float (Some 21)), (''modis_LST'', Float (Some 300)),
               (''modis_time'', Datetime 0), (''temperature_tm1'', Float (Some 20))])]"
proof (intro conjI)
  show "\<not> distinct (map datetime [station 0 20, station 0 21])"
    by (simp add: station_def)
  show "match_station_with_modis [station 0 20, station 0 21] grid_exact =
     Inr [(0, [(''latitude'', Float (Some 52)), (''longitude'', Float (Some 13)),
               (''temperature'', Float (Some 21)), (''modis_LST'', Float (Some 300)),
               (''modis_time'', Datetime 0), (''temperature_tm1'', Float (Some 20))])]"
    by code_simp
  show "\<not> sorted_wrt (<) (map datetime [station hour 21, station 0 20])"
    by (simp add: station_def hour_def)
  show "match_station_with_modis [station hour 21, station 0 20] grid_exact =
     Inr [(0, [(''latitude'', Float (Some 52)), (''longitude'', Float (Some 13)),
               (''temperature'', Float (Some 20)), (''modis_LST'', Float (Some 300)),
               (''modis_time'', Datetime hour), (''temperature_tm1'', Float (Some 21))])]"
    by code_simp
qed

lemma map_of_paired_LST:
  "map_of (paired_columns c a) ''modis_LST'' = Some (Float (modis_LST c))"
  unfolding paired_columns_def
  by (rule map_of_filter_in[OF map_of_columns_LST]) simp

text \<open>
  Claim C4.  An undefined grid value raises nothing: for every group and every grid the
  match-up returns a table, and in every row of that table the column
  \<^verbatim>\<open>modis_LST\<close> holds a defined number.
\<close>

theorem no_undefined_matched_value:
  "\<exists>out. match_station_with_modis df_station da_modis = Inr out \<and>
     (\<forall>(k, cols) \<in> set out. \<exists>v. map_of cols ''modis_LST'' = Some (Float (Some v)))"
  unfolding match_station_with_modis_general
  by (auto simp: map_of_paired_LST emitted_def)

text \<open>
  Three rows one hour apart, the grid undefined at the second: the pair whose current
  row is the second one is dropped, the third row is paired with the second.
\<close>

theorem no_undefined_matched_value_witness:
  "match_station_with_modis [station 0 20, station hour 21, station (2 * hour) 22] grid_nan_second =
     Inr [(2 * hour, [(''latitude'', Float (Some 52)), (''longitude'', Float (Some 13)),
               (''temperature'', Float (Some 22)), (''modis_LST'', Float (Some 300)),
               (''modis_time'', Datetime (2 * hour)), (''temperature_tm1'', Float (Some 21))])] \<and>
   (\<exists>v. map_of [(''latitude'', Float (Some 52)), (''longitude'', Float (Some 13)),
               (''temperature'', Float (Some 22)), (''modis_LST'', Float (Some 300)),
               (''modis_time'', Datetime (2 * hour)), (''temperature_tm1'', Float (Some 21))]
            ''modis_LST'' = Some (Float (Some v)))"
proof -
  have e: "match_station_with_modis [station 0 20, station hour 21, station (2 * hour) 22] grid_nan_second =
     Inr [(2 * hour, [(''latitude'', Float (Some 52)), (''longitude'', Float (Some 13)),
               (''temperature'', Float (Some 22)), (''modis_LST'', Float (Some 300)),
               (''modis_time'', Datetime (2 * hour)), (''temperature_tm1'', Float (Some 21))])]"
    by code_simp
  from no_undefined_matched_value[of "[station 0 20, station hour 21, station (2 * hour) 22]" grid_nan_second]
  show ?thesis unfolding e by simp
qed

lemma filter_zip_update:
  "length m = length xs \<Longrightarrow> i < length xs \<Longrightarrow> \<not> m ! i \<Longrightarrow>
   filter snd (zip (xs[i := r]) m) = filter snd (zip xs m)"
proof (induction m xs arbitrary: i rule: list_induct2)
  case Nil
  then show ?case by simp
next
  case (Cons b m x xs)
  then show ?case by (cases i) simp_all
qed

lemma loc_mask_update:
  "length m = length rows \<Longrightarrow> i < length rows \<Longrightarrow> \<not> m ! i \<Longrightarrow>
   loc_mask (rows[i := r]) m = loc_mask rows m"
  by (simp add: loc_mask_def filter_zip_update)

text \<open>
  Claim C10.  A position whose offset is undefined (NaN) is neither a current match nor
  a previous anchor: both masks are false there.  The two frames that
  \<^verbatim>\<open>match_station_with_modis\<close> selects with the masks do not depend on the row at
  that position, whatever stands there: the row enters no paired record.
\<close>

theorem undefined_offset_never_selected:
  assumes "i < length offset" and "offset ! i = None"
  shows "\<not> fst (get_matching_and_prev offset) ! i \<and>
         \<not> snd (get_matching_and_prev offset) ! i \<and>
         (\<forall>rows r. length rows = length offset \<longrightarrow>
            loc_mask (rows[i := r]) (fst (get_matching_and_prev offset)) =
              loc_mask rows (fst (get_matching_and_prev offset)) \<and>
            loc_mask (rows[i := r]) (snd (get_matching_and_prev offset)) =
              loc_mask rows (snd (get_matching_and_prev offset)))"
proof -
  have t1: "\<not> fst (get_matching_and_prev offset) ! i"
    using assms by (simp add: nth_mask_t1)
  have t0: "\<not> snd (get_matching_and_prev offset) ! i"
    using assms by (simp add: nth_mask_t0)
  show ?thesis
    using t1 t0 assms(1) by (simp add: loc_mask_update)
qed

text \<open>
  Four positions, the offset undefined at the second.
\<close>

theorem undefined_offset_never_selected_witness:
  "(1::nat) < length [Some 0, None, Some 0, Some (0::rat)] \<and>
   [Some 0, None, Some 0, Some (0::rat)] ! 1 = None \<and>
   get_matching_and_prev [Some 0, None, Some 0, Some 0] =
     ([False, False, False, True], [False, False, True, False]) \<and>
   loc_mask ((annotated_frame [station 0 20, station hour 21, station (2 * hour) 22,
        station (3 * hour) 23] grid_exact) [1 := attach (station 7 7) (None, 7)])
     (fst (get_matching_and_prev [Some 0, None, Some 0, Some 0])) =
   loc_mask (annotated_frame [station 0 20, station hour 21, station (2 * hour) 22,
        station (3 * hour) 23] grid_exact)
     (fst (get_matching_and_prev [Some 0, None, Some 0, Some 0])) \<and>
   loc_mask ((annotated_frame [station 0 20, station hour 21, station (2 * hour) 22,
        station (3 * hour) 23] grid_exact) [1 := attach (station 7 7) (None, 7)])
     (snd (get_matching_and_prev [Some 0, None, Some 0, Some 0])) =
   loc_mask (annotated_frame [station 0 20, station hour 21, station (2 * hour) 22,
        station (3 * hour) 23] grid_exact)
     (snd (get_matching_and_prev [Some 0, None, Some 0, Some 0]))"
proof -
  have l: "(1::nat) < length [Some 0, None, Some 0, Some (0::rat)]" by simp
  have n: "[Some 0, None, Some 0, Some (0::rat)] ! 1 = None" by simp
  have m: "get_matching_and_prev [Some 0, None, Some 0, Some 0] =
     ([False, False, False, True], [False, False, True, False])"
    by code_simp
  have len: "length (annotated_frame [station 0 20, station hour 21, station (2 * hour) 22,
        station (3 * hour) 23] grid_exact) = length [Some 0, None, Some 0, Some (0::rat)]"
    by simp
  from undefined_offset_never_selected[OF l n] len
  show ?thesis using l n m by blast
qed





lemma sorted_distinct_datetime:
  "sorted_wrt (<) (map datetime df) \<Longrightarrow> distinct (map datetime df)"
  by (simp add: strict_sorted_iff)




lemma adjacent_row_emitted:
  assumes "i + 1 < length R" and "emitted (R ! (i + 1), R ! i)"
  shows "(datetime (R ! (i + 1)), paired_columns (R ! (i + 1)) (R ! i)) \<in>
         set (concat (map (\<lambda>p. map (\<lambda>q. (datetime (fst p), paired_columns (fst p) (snd q)))
                             (filter (\<lambda>q. datetime (fst q) = datetime (fst p))
                                (filter in_window (adjacent R))))
                    (filter emitted (adjacent R))))"
proof -
  define p where "p = (R ! (i + 1), R ! i)"
  have "adjacent R ! i = p" using assms(1) by (simp add: nth_adjacent p_def)
  moreover have "i < length (adjacent R)" using assms(1) by simp
  ultimately have mem: "p \<in> set (adjacent R)" by (metis nth_mem)
  have em: "emitted p" using assms(2) by (simp add: p_def)
  then have "in_window p" by (simp add: emitted_def)
  with mem em show ?thesis
    unfolding p_def by (force intro!: bexI[where x = "(R ! (i + 1), R ! i)"])
qed

text \<open>
  Claim C9.  For every group and grid, the pair of a row and the row before it is emitted
  as soon as the offset of the current row is within one hour, the own offset of the
  anchor row is within four hours and the matched value of the current row is defined:
  neither the matched value of the anchor row nor the time between the two rows is
  tested.  For a group with strictly increasing timestamps these are exactly the pairs
  emitted, in order.
\<close>

theorem drop_rule_tests_current_row_only:
  "(i + 1 < length df_station \<and>
    abs_le (offset_hrs (annotated_frame df_station da_modis ! (i + 1))) 1 \<and>
    abs_le (offset_hrs (annotated_frame df_station da_modis ! i)) 4 \<and>
    modis_LST (annotated_frame df_station da_modis ! (i + 1)) \<noteq> None \<longrightarrow>
    (\<exists>out. match_station_with_modis df_station da_modis = Inr out \<and>
       (datetime (annotated_frame df_station da_modis ! (i + 1)),
        paired_columns (annotated_frame df_station da_modis ! (i + 1))
          (annotated_frame df_station da_modis ! i)) \<in> set out)) \<and>
   (sorted_wrt (<) (map datetime df_station) \<longrightarrow>
    match_station_with_modis df_station da_modis =
      Inr (map (\<lambda>p. (datetime (fst p), paired_columns (fst p) (snd p)))
             (filter (\<lambda>p. abs_le (offset_hrs (fst p)) 1 \<and> abs_le (offset_hrs (snd p)) 4 \<and>
                          modis_LST (fst p) \<noteq> None)
                (adjacent (annotated_frame df_station da_modis)))))"
proof (intro conjI impI)
  assume a: "i + 1 < length df_station \<and>
    abs_le (offset_hrs (annotated_frame df_station da_modis ! (i + 1))) 1 \<and>
    abs_le (offset_hrs (annotated_frame df_station da_modis ! i)) 4 \<and>
    modis_LST (annotated_frame df_station da_modis ! (i + 1)) \<noteq> None"
  then have "i + 1 < length (annotated_frame df_station da_modis)"
    and "emitted (annotated_frame df_station da_modis ! (i + 1), annotated_frame df_station da_modis ! i)"
    by (simp_all add: emitted_def in_window_def)
  then show "\<exists>out. match_station_with_modis df_station da_modis = Inr out \<and>
       (datetime (annotated_frame df_station da_modis ! (i + 1)),
        paired_columns (annotated_frame df_station da_modis ! (i + 1))
          (annotated_frame df_station da_modis ! i)) \<in> set out"
    unfolding match_station_with_modis_general
    using adjacent_row_emitted by blast
next
  assume "sorted_wrt (<) (map datetime df_station)"
  then have "distinct (map datetime df_station)"
    by (rule sorted_distinct_datetime)
  moreover have "emitted = (\<lambda>p. abs_le (offset_hrs (fst p)) 1 \<and>
                     abs_le (offset_hrs (snd p)) 4 \<and> modis_LST (fst p) \<noteq> None)"
    by (rule ext) (simp add: emitted_def in_window_def)
  ultimately show "match_station_with_modis df_station da_modis =
      Inr (map (\<lambda>p. (datetime (fst p), paired_columns (fst p) (snd p)))
             (filter (\<lambda>p. abs_le (offset_hrs (fst p)) 1 \<and> abs_le (offset_hrs (snd p)) 4 \<and>
                          modis_LST (fst p) \<noteq> None)
                (adjacent (annotated_frame df_station da_modis))))"
    by (simp only: match_station_with_modis_distinct)
qed

text \<open>
  Two rows ten hours apart, both matched at their own time, the grid undefined at the
  first: the pair is emitted.
\<close>

theorem drop_rule_tests_current_row_only_witness:
  "0 + 1 < length [station 0 20, station (10 * hour) 21] \<and>
   abs_le (offset_hrs (annotated_frame [station 0 20, station (10 * hour) 21] grid_nan_first ! (0 + 1))) 1 \<and>
   abs_le (offset_hrs (annotated_frame [station 0 20, station (10 * hour) 21] grid_nan_first ! 0)) 4 \<and>
   modis_LST (annotated_frame [station 0 20, station (10 * hour) 21] grid_nan_first ! (0 + 1)) \<noteq> None \<and>
   modis_LST (annotated_frame [station 0 20, station (10 * hour) 21] grid_nan_first ! 0) = None \<and>
   sorted_wrt (<) (map datetime [station 0 20, station (10 * hour) 21]) \<and>
   match_station_with_modis [station 0 20, station (10 * hour) 21] grid_nan_first =
     Inr [(10 * hour, [(''latitude'', Float (Some 52)), (''longitude'', Float (Some 13)),
               (''temperature'', Float (Some 21)), (''modis_LST'', Float (Some 300)),
               (''modis_time'', Datetime (10 * hour)), (''temperature_tm1'', Float (Some 20))])] \<and>
   (\<exists>out. match_station_with_modis [station 0 20, station (10 * hour) 21] grid_nan_first = Inr out \<and>
       (datetime (annotated_frame [station 0 20, station (10 * hour) 21] grid_nan_first ! (0 + 1)),
        paired_columns (annotated_frame [station 0 20, station (10 * hour) 21] grid_nan_first ! (0 + 1))
          (annotated_frame [station 0 20, station (10 * hour) 21] grid_nan_first ! 0)) \<in> set out)"
proof -
  have l: "0 + 1 < length [station 0 20, station (10 * hour) 21]" by simp
  have c: "abs_le (offset_hrs (annotated_frame [station 0 20, station (10 * hour) 21] grid_nan_first ! (0 + 1))) 1"
    by code_simp
  have a: "abs_le (offset_hrs (annotated_frame [station 0 20, station (10 * hour) 21] grid_nan_first ! 0)) 4"
    by code_simp
  have v: "modis_LST (annotated_frame [station 0 20, station (10 * hour) 21] grid_nan_first ! (0 + 1)) \<noteq> None"
    by code_simp
  have n: "modis_LST (annotated_frame [station 0 20, station (10 * hour) 21] grid_nan_first ! 0) = None"
    by code_simp
  have s: "sorted_wrt (<) (map datetime [station 0 20, station (10 * hour) 21])"
    by (simp add: station_def hour_def)
  have e: "match_station_with_modis [station 0 20, station (10 * hour) 21] grid_nan_first =
     Inr [(10 * hour, [(''latitude'', Float (Some 52)), (''longitude'', Float (Some 13)),
               (''temperature'', Float (Some 21)), (''modis_LST'', Float (Some 300)),
               (''modis_time'', Datetime (10 * hour)), (''temperature_tm1'', Float (Some 20))])]"
    by code_simp
  from drop_rule_tests_current_row_only[of 0 "[station 0 20, station (10 * hour) 21]" grid_nan_first]
    l c a v
  have "\<exists>out. match_station_with_modis [station 0 20, station (10 * hour) 21] grid_nan_first = Inr out \<and>
       (datetime (annotated_frame [station 0 20, station (10 * hour) 21] grid_nan_first ! (0 + 1)),
        paired_columns (annotated_frame [station 0 20, station (10 * hour) 21] grid_nan_first ! (0 + 1))
          (annotated_frame [station 0 20, station (10 * hour) 21] grid_nan_first ! 0)) \<in> set out"
    by blast
  with l c a v n s e show ?thesis by blast
qed

lemma mask_t1_Suc:
  "i + 1 < length offset \<Longrightarrow>
   fst (get_matching_and_prev offset) ! (i + 1) = snd (get_matching_and_prev offset) ! i"
  by (simp add: nth_mask_t1 nth_mask_t0)

lemma mask_t0_top:
  "offset \<noteq> [] \<Longrightarrow> \<not> snd (get_matching_and_prev offset) ! (length offset - 1)"
  by (simp add: nth_mask_t0)

lemma mask_t1_zero:
  "offset \<noteq> [] \<Longrightarrow> \<not> fst (get_matching_and_prev offset) ! 0"
  by (simp add: nth_mask_t1)

lemma anchor_positions_butlast:
  "filter (\<lambda>i. snd (get_matching_and_prev offset) ! i) [0 ..< length offset] =
   filter (\<lambda>i. snd (get_matching_and_prev offset) ! i) [0 ..< length offset - 1]"
proof (cases "offset = []")
  case True
  then show ?thesis by simp
next
  case False
  then have "[0 ..< length offset] = [0 ..< length offset - 1] @ [length offset - 1]"
    by (metis One_nat_def Suc_pred length_greater_0_conv upt_Suc_append zero_le)
  then show ?thesis
    using mask_t0_top[OF False] by simp
qed

lemma current_positions:
  "filter (\<lambda>i. fst (get_matching_and_prev offset) ! i) [0 ..< length offset] =
   map Suc (filter (\<lambda>i. snd (get_matching_and_prev offset) ! i) [0 ..< length offset])"
proof (cases "offset = []")
  case True
  then show ?thesis by simp
next
  case False
  then have u: "[0 ..< length offset] = 0 # map Suc [0 ..< length offset - 1]"
    by (metis One_nat_def Suc_pred length_greater_0_conv map_Suc_upt upt_conv_Cons)
  have "filter (\<lambda>i. fst (get_matching_and_prev offset) ! i) [0 ..< length offset] =
        map Suc (filter (\<lambda>i. fst (get_matching_and_prev offset) ! Suc i) [0 ..< length offset - 1])"
    unfolding u using mask_t1_zero[OF False] by (simp add: filter_map o_def)
  also have "filter (\<lambda>i. fst (get_matching_and_prev offset) ! Suc i) [0 ..< length offset - 1] =
             filter (\<lambda>i. snd (get_matching_and_prev offset) ! i) [0 ..< length offset - 1]"
    by (rule filter_cong[OF refl]) (use mask_t1_Suc[of _ offset] in simp)
  finally show ?thesis
    unfolding anchor_positions_butlast .
qed

lemma count_masks:
  "length (filter (\<lambda>b. b) (fst (get_matching_and_prev offset))) =
   length (filter (\<lambda>b. b) (snd (get_matching_and_prev offset)))"
proof -
  have "length (filter (\<lambda>b. b) m) = length (filter (\<lambda>i. m ! i) [0 ..< length m])" for m :: "bool list"
  proof -
    have "filter (\<lambda>b. b) (map (\<lambda>i. m ! i) [0 ..< length m]) =
          map (\<lambda>i. m ! i) (filter (\<lambda>i. m ! i) [0 ..< length m])"
      by (simp add: filter_map o_def)
    then show ?thesis
      by (metis length_map map_nth)
  qed
  from this[of "fst (get_matching_and_prev offset)"] this[of "snd (get_matching_and_prev offset)"]
  show ?thesis
    by (simp add: current_positions)
qed

lemma adjacent_conv_map:
  "adjacent R = map (\<lambda>i. (R ! (i + 1), R ! i)) [0 ..< length R - 1]"
  by (rule nth_equalityI) (simp_all add: nth_adjacent)

lemma window_pairs_index:
  "filter in_window (adjacent R) =
   map (\<lambda>i. (R ! (i + 1), R ! i))
     (filter (\<lambda>i. snd (get_matching_and_prev (map offset_hrs R)) ! i) [0 ..< length R])"
proof -
  have "filter in_window (adjacent R) =
        map (\<lambda>i. (R ! (i + 1), R ! i))
          (filter (\<lambda>i. in_window (R ! (i + 1), R ! i)) [0 ..< length R - 1])"
    unfolding adjacent_conv_map by (simp add: filter_map o_def)
  also have "filter (\<lambda>i. in_window (R ! (i + 1), R ! i)) [0 ..< length R - 1] =
        filter (\<lambda>i. snd (get_matching_and_prev (map offset_hrs R)) ! i) [0 ..< length R - 1]"
    by (rule filter_cong[OF refl]) (auto simp: nth_mask_t0 in_window_def)
  finally show ?thesis
    using anchor_positions_butlast[of "map offset_hrs R"] by simp
qed

text \<open>
  Claim C2.  For every offset sequence the second mask at \<open>i\<close> is the first mask at
  \<open>i + 1\<close>, and the second mask is false at the last position.  Hence both masks
  select equally many rows, and the positions selected as current rows are the
  successors of the positions selected as anchors, in order: the \<open>k\<close>-th current row
  stands right after the \<open>k\<close>-th anchor row.  For a group with strictly increasing
  timestamps, the join on the index that \<^verbatim>\<open>set_index\<close> prepares realises this
  pairing: with \<open>A\<close> the anchor positions, the joined frame holds, for every \<open>i\<close> in
  \<open>A\<close> in order, the row \<open>i + 1\<close> merged with the row \<open>i\<close>, whose timestamp is
  strictly earlier.
\<close>

theorem masks_pair_adjacent_rows:
  "(\<forall>i. i + 1 < length offset \<longrightarrow>
      snd (get_matching_and_prev offset) ! i = fst (get_matching_and_prev offset) ! (i + 1)) \<and>
   (offset \<noteq> [] \<longrightarrow> \<not> snd (get_matching_and_prev offset) ! (length offset - 1)) \<and>
   length (filter (\<lambda>b. b) (fst (get_matching_and_prev offset))) =
     length (filter (\<lambda>b. b) (snd (get_matching_and_prev offset))) \<and>
   filter (\<lambda>i. fst (get_matching_and_prev offset) ! i) [0 ..< length offset] =
     map Suc (filter (\<lambda>i. snd (get_matching_and_prev offset) ! i) [0 ..< length offset]) \<and>
   (sorted_wrt (<) (map datetime df_station) \<longrightarrow>
      (let R = annotated_frame df_station da_modis;
           mask_t1 = fst (get_matching_and_prev (map offset_hrs R));
           mask_t0 = snd (get_matching_and_prev (map offset_hrs R));
           A = filter (\<lambda>i. mask_t0 ! i) [0 ..< length R]
       in loc_mask R mask_t1 = map (\<lambda>i. (datetime (R ! (i + 1)), R ! (i + 1))) A \<and>
          set_index (loc_mask R mask_t0) (map fst (loc_mask R mask_t1)) =
            Inr (map (\<lambda>i. (datetime (R ! (i + 1)), R ! i)) A) \<and>
          join (loc_mask R mask_t1) (map (\<lambda>i. (datetime (R ! (i + 1)), R ! i)) A) ''_tm1'' =
            map (\<lambda>i. (datetime (R ! (i + 1)),
                       columns (R ! (i + 1)) @ add_suffix ''_tm1'' (columns (R ! i)))) A \<and>
          (\<forall>i \<in> set A. i + 1 < length R \<and> datetime (R ! i) < datetime (R ! (i + 1)))))"
proof (intro conjI impI allI)
  fix i assume "i + 1 < length offset"
  then show "snd (get_matching_and_prev offset) ! i = fst (get_matching_and_prev offset) ! (i + 1)"
    by (rule mask_t1_Suc[symmetric])
next
  assume "offset \<noteq> []"
  then show "\<not> snd (get_matching_and_prev offset) ! (length offset - 1)"
    by (rule mask_t0_top)
next
  show "length (filter (\<lambda>b. b) (fst (get_matching_and_prev offset))) =
     length (filter (\<lambda>b. b) (snd (get_matching_and_prev offset)))"
    by (rule count_masks)
next
  show "filter (\<lambda>i. fst (get_matching_and_prev offset) ! i) [0 ..< length offset] =
     map Suc (filter (\<lambda>i. snd (get_matching_and_prev offset) ! i) [0 ..< length offset])"
    by (rule current_positions)
next
  assume s: "sorted_wrt (<) (map datetime df_station)"
  define R where "R = annotated_frame df_station da_modis"
  define A where "A = filter (\<lambda>i. snd (get_matching_and_prev (map offset_hrs R)) ! i) [0 ..< length R]"
  have W: "filter in_window (adjacent R) = map (\<lambda>i. (R ! (i + 1), R ! i)) A"
    unfolding A_def by (rule window_pairs_index)
  have t1: "loc_mask R (fst (get_matching_and_prev (map offset_hrs R))) =
            map (\<lambda>i. (datetime (R ! (i + 1)), R ! (i + 1))) A"
    unfolding loc_mask_t1 W by (simp add: o_def)
  have t0: "set_index (loc_mask R (snd (get_matching_and_prev (map offset_hrs R))))
              (map fst (loc_mask R (fst (get_matching_and_prev (map offset_hrs R))))) =
            Inr (map (\<lambda>i. (datetime (R ! (i + 1)), R ! i)) A)"
    unfolding set_index_t0 W by (simp add: o_def)
  have d: "distinct (map (\<lambda>q. datetime (fst q)) (filter in_window (adjacent R)))"
    unfolding R_def by (intro distinct_window_keys sorted_distinct_datetime s)
  have j: "join (map (\<lambda>i. (datetime (R ! (i + 1)), R ! (i + 1))) A)
             (map (\<lambda>i. (datetime (R ! (i + 1)), R ! i)) A) ''_tm1'' =
            map (\<lambda>i. (datetime (R ! (i + 1)),
                       columns (R ! (i + 1)) @ add_suffix ''_tm1'' (columns (R ! i)))) A"
    using join_distinct_keys[OF d, of "''_tm1''"] unfolding W by (simp add: o_def)
  have lt: "i + 1 < length R \<and> datetime (R ! i) < datetime (R ! (i + 1))" if "i \<in> set A" for i
  proof -
    from that have i: "i < length R" and m: "snd (get_matching_and_prev (map offset_hrs R)) ! i"
      by (simp_all add: A_def)
    from m i have i1: "i + 1 < length R" by (simp add: nth_mask_t0)
    have "sorted_wrt (<) (map datetime R)" using s by (simp add: R_def)
    then have "map datetime R ! i < map datetime R ! (i + 1)"
      by (rule sorted_wrt_nth_less) (use i1 in simp_all)
    with i1 show ?thesis by simp
  qed
  show "let R = annotated_frame df_station da_modis;
           mask_t1 = fst (get_matching_and_prev (map offset_hrs R));
           mask_t0 = snd (get_matching_and_prev (map offset_hrs R));
           A = filter (\<lambda>i. mask_t0 ! i) [0 ..< length R]
       in loc_mask R mask_t1 = map (\<lambda>i. (datetime (R ! (i + 1)), R ! (i + 1))) A \<and>
          set_index (loc_mask R mask_t0) (map fst (loc_mask R mask_t1)) =
            Inr (map (\<lambda>i. (datetime (R ! (i + 1)), R ! i)) A) \<and>
          join (loc_mask R mask_t1) (map (\<lambda>i. (datetime (R ! (i + 1)), R ! i)) A) ''_tm1'' =
            map (\<lambda>i. (datetime (R ! (i + 1)),
                       columns (R ! (i + 1)) @ add_suffix ''_tm1'' (columns (R ! i)))) A \<and>
          (\<forall>i \<in> set A. i + 1 < length R \<and> datetime (R ! i) < datetime (R ! (i + 1)))"
    unfolding Let_def R_def[symmetric] A_def[symmetric]
    using t1 t0 j lt by simp
qed

text \<open>
  The offsets and the group of the scenario of the specification.
\<close>

theorem masks_pair_adjacent_rows_witness:
  "(1::nat) + 1 < length [Some 0, Some (- 2), Some (0::rat)] \<and>
   snd (get_matching_and_prev [Some 0, Some (- 2), Some 0]) ! 1 =
     fst (get_matching_and_prev [Some 0, Some (- 2), Some 0]) ! (1 + 1) \<and>
   [Some 0, Some (- 2), Some (0::rat)] \<noteq> [] \<and>
   \<not> snd (get_matching_and_prev [Some 0, Some (- 2), Some 0]) !
       (length [Some 0, Some (- 2), Some (0::rat)] - 1) \<and>
   get_matching_and_prev [Some 0, Some (- 2), Some 0] =
     ([False, False, True], [False, True, False]) \<and>
   length (filter (\<lambda>b. b) (fst (get_matching_and_prev [Some 0, Some (- 2), Some 0]))) =
     length (filter (\<lambda>b. b) (snd (get_matching_and_prev [Some 0, Some (- 2), Some 0]))) \<and>
   filter (\<lambda>i. fst (get_matching_and_prev [Some 0, Some (- 2), Some 0]) ! i)
       [0 ..< length [Some 0, Some (- 2), Some (0::rat)]] =
     map Suc (filter (\<lambda>i. snd (get_matching_and_prev [Some 0, Some (- 2), Some 0]) ! i)
       [0 ..< length [Some 0, Some (- 2), Some (0::rat)]]) \<and>
   sorted_wrt (<) (map datetime [station 0 20, station hour 21, station (3 * hour) 22]) \<and>
   map offset_hrs (annotated_frame [station 0 20, station hour 21, station (3 * hour) 22]
       grid_scenario) = [Some 0, Some (- 2), Some 0] \<and>
   (let R = annotated_frame [station 0 20, station hour 21, station (3 * hour) 22] grid_scenario;
        mask_t1 = fst (get_matching_and_prev (map offset_hrs R));
        mask_t0 = snd (get_matching_and_prev (map offset_hrs R));
        A = filter (\<lambda>i. mask_t0 ! i) [0 ..< length R]
    in loc_mask R mask_t1 = map (\<lambda>i. (datetime (R ! (i + 1)), R ! (i + 1))) A \<and>
       set_index (loc_mask R mask_t0) (map fst (loc_mask R mask_t1)) =
         Inr (map (\<lambda>i. (datetime (R ! (i + 1)), R ! i)) A) \<and>
       join (loc_mask R mask_t1) (map (\<lambda>i. (datetime (R ! (i + 1)), R ! i)) A) ''_tm1'' =
         map (\<lambda>i. (datetime (R ! (i + 1)),
                    columns (R ! (i + 1)) @ add_suffix ''_tm1'' (columns (R ! i)))) A \<and>
       (\<forall>i \<in> set A. i + 1 < length R \<and> datetime (R ! i) < datetime (R ! (i + 1))))"
proof -
  have l: "(1::nat) + 1 < length [Some 0, Some (- 2), Some (0::rat)]" by simp
  have n: "[Some 0, Some (- 2), Some (0::rat)] \<noteq> []" by simp
  have m: "get_matching_and_prev [Some 0, Some (- 2), Some 0] =
     ([False, False, True], [False, True, False])"
    by code_simp
  have s: "sorted_wrt (<) (map datetime [station 0 20, station hour 21, station (3 * hour) 22])"
    by (simp add: station_def hour_def)
  have ofs: "map offset_hrs (annotated_frame [station 0 20, station hour 21, station (3 * hour) 22]
       grid_scenario) = [Some 0, Some (- 2), Some 0]"
    by code_simp
  from masks_pair_adjacent_rows[of "[Some 0, Some (- 2), Some 0]"
      "[station 0 20, station hour 21, station (3 * hour) 22]" grid_scenario] l n s
  show ?thesis
    using m ofs by blast
qed

lemma update_fresh: "k \<notin> fst ` set al \<Longrightarrow> AList.update k v al = al @ [(k, v)]"
  by (induction al) auto

lemma columns_explicit:
  assumes "''modis_LST'' \<notin> fst ` set (variables c)" and "''modis_time'' \<notin> fst ` set (variables c)"
  shows "columns c =
         [(''latitude'', Float (Some (latitude c))), (''longitude'', Float (Some (longitude c)))] @
         variables c @
         [(''modis_LST'', Float (modis_LST c)), (''modis_time'', Datetime (modis_time c))]"
proof -
  let ?al = "[(''latitude'', Float (Some (latitude c))),
              (''longitude'', Float (Some (longitude c)))] @ variables c"
  have 1: "AList.update ''modis_LST'' (Float (modis_LST c)) ?al =
           ?al @ [(''modis_LST'', Float (modis_LST c))]"
    using assms(1) by (intro update_fresh) simp
  have 2: "AList.update ''modis_time'' (Datetime (modis_time c))
             (?al @ [(''modis_LST'', Float (modis_LST c))]) =
           (?al @ [(''modis_LST'', Float (modis_LST c))]) @
             [(''modis_time'', Datetime (modis_time c))]"
    using assms(2) by (intro update_fresh) simp
  show ?thesis
    unfolding columns_def 1 2 by simp
qed

lemma suffixed_names:
  "''modis_time_tm1'' = ''modis_time'' @ ''_tm1''" "''modis_LST_tm1'' = ''modis_LST'' @ ''_tm1''"
  "''latitude_tm1'' = ''latitude'' @ ''_tm1''" "''longitude_tm1'' = ''longitude'' @ ''_tm1''"
  by simp_all

lemma filter_suffixed_variables:
  assumes "fst ` set vs \<inter> set reserved_names = {}"
  shows "filter (\<lambda>(n, v). n \<notin> set [''modis_time_tm1'', ''modis_LST_tm1'', ''latitude_tm1'',
                                   ''longitude_tm1'']) (add_suffix ''_tm1'' vs) =
         add_suffix ''_tm1'' vs"
proof (rule filter_True, clarify)
  fix n v assume "(n, v) \<in> set (add_suffix ''_tm1'' vs)"
    and d: "n \<in> set [''modis_time_tm1'', ''modis_LST_tm1'', ''latitude_tm1'', ''longitude_tm1'']"
  then obtain n' where n': "n' \<in> fst ` set vs" "n = n' @ ''_tm1''"
    by (force simp: add_suffix_def)
  from d have "n' \<in> set [''modis_time'', ''modis_LST'', ''latitude'', ''longitude'']"
    unfolding n'(2) suffixed_names by (simp only: set_simps insert_iff append_same_eq empty_iff)
  then have "n' \<in> set reserved_names"
    by (auto simp: reserved_names_def)
  with n'(1) assms show False by blast
qed

lemma filter_station_variables:
  assumes "fst ` set vs \<inter> set reserved_names = {}"
  shows "filter (\<lambda>(n, v). n \<notin> set [''modis_time_tm1'', ''modis_LST_tm1'', ''latitude_tm1'',
                                   ''longitude_tm1'']) vs = vs"
proof (rule filter_True, clarify)
  fix n v assume "(n, v) \<in> set vs"
    and d: "n \<in> set [''modis_time_tm1'', ''modis_LST_tm1'', ''latitude_tm1'', ''longitude_tm1'']"
  then have "n \<in> fst ` set vs" "n \<in> set reserved_names"
    by (force, auto simp: reserved_names_def)
  with assms show False by blast
qed

lemma paired_columns_explicit:
  assumes "fst ` set (variables c) \<inter> set reserved_names = {}"
    and "fst ` set (variables a) \<inter> set reserved_names = {}"
  shows "paired_columns c a =
         [(''latitude'', Float (Some (latitude c))), (''longitude'', Float (Some (longitude c)))] @
         variables c @
         [(''modis_LST'', Float (modis_LST c)), (''modis_time'', Datetime (modis_time c))] @
         add_suffix ''_tm1'' (variables a)"
proof -
  have r: "''modis_LST'' \<in> set reserved_names" "''modis_time'' \<in> set reserved_names"
    by (simp_all add: reserved_names_def)
  have c: "''modis_LST'' \<notin> fst ` set (variables c)" "''modis_time'' \<notin> fst ` set (variables c)"
    using assms(1) r by blast+
  have a: "''modis_LST'' \<notin> fst ` set (variables a)" "''modis_time'' \<notin> fst ` set (variables a)"
    using assms(2) r by blast+
  have s: "add_suffix ''_tm1'' (xs @ ys) = add_suffix ''_tm1'' xs @ add_suffix ''_tm1'' ys" for xs ys
    by (simp add: add_suffix_def)
  show ?thesis
    unfolding paired_columns_def columns_explicit[OF c] columns_explicit[OF a] s filter_append
      filter_station_variables[OF assms(1)] filter_suffixed_variables[OF assms(2)]
    by (simp add: add_suffix_def)
qed

lemma variables_annotated_frame:
  "x \<in> set (annotated_frame df g) \<Longrightarrow> variables x \<in> variables ` set df"
  unfolding annotated_frame_def assign_modis_def
  by (auto dest!: set_zip_leftD)

lemma adjacent_members:
  assumes "(c, a) \<in> set (adjacent R)"
  shows "c \<in> set R" and "a \<in> set R"
proof -
  from assms have "c \<in> set (tl R)" and "a \<in> set (butlast R)"
    unfolding adjacent_def by (auto dest: set_zip_leftD set_zip_rightD)
  then show "c \<in> set R" and "a \<in> set R"
    by (auto dest: in_set_butlastD list.set_sel(2)[rotated])
qed

lemma sorted_current_index:
  assumes "sorted_wrt (<) (map datetime df)"
  shows "sorted_wrt (<) (map (\<lambda>p. datetime (fst p)) (filter P (adjacent (annotated_frame df g))))"
proof -
  have "sorted_wrt (<) (map datetime (annotated_frame df g))"
    using assms by simp
  then have "sorted_wrt (<) (map datetime (tl (annotated_frame df g)))"
    by (cases "annotated_frame df g") simp_all
  then have "sorted_wrt (<) (map datetime (map fst (adjacent (annotated_frame df g))))"
    by (simp only: map_fst_adjacent)
  then have "sorted_wrt (\<lambda>p q. datetime (fst p) < datetime (fst q)) (adjacent (annotated_frame df g))"
    by (simp add: sorted_wrt_map)
  then have "sorted_wrt (\<lambda>p q. datetime (fst p) < datetime (fst q))
               (filter P (adjacent (annotated_frame df g)))"
    by (rule sorted_wrt_filter)
  then show ?thesis
    by (simp add: sorted_wrt_map)
qed

lemma paired_columns_spec:
  assumes "fst ` set (variables c) \<inter> set reserved_names = {}"
    and "fst ` set (variables a) \<inter> set reserved_names = {}"
  shows "paired_columns c a = spec_paired_columns c a"
  unfolding spec_paired_columns_def using assms by (rule paired_columns_explicit)

text \<open>
  Claim C8 says that every emitted record holds all the variable columns of its current
  row.  A variable column that bears one of the four dropped names is lost: with a
  station column named \<^verbatim>\<open>latitude_tm1\<close>, the output row holds neither that column
  of the current row nor the latitude of the anchor row, both dropped under the one
  name.
\<close>

theorem current_column_named_like_dropped:
  "match_station_with_modis
     [station_named ''latitude_tm1'' 0 7, station_named ''latitude_tm1'' hour 8] grid_exact =
     Inr [(hour, [(''latitude'', Float (Some 52)), (''longitude'', Float (Some 13)),
                  (''modis_LST'', Float (Some 300)), (''modis_time'', Datetime hour),
                  (''latitude_tm1_tm1'', Float (Some 7))])] \<and>
   variables (station_named ''latitude_tm1'' hour 8) = [(''latitude_tm1'', Float (Some 8))] \<and>
   map_of [(''latitude'', Float (Some 52)), (''longitude'', Float (Some 13)),
           (''modis_LST'', Float (Some 300)), (''modis_time'', Datetime hour),
           (''latitude_tm1_tm1'', Float (Some 7))] ''latitude_tm1'' = None"
proof (intro conjI)
  show "match_station_with_modis
     [station_named ''latitude_tm1'' 0 7, station_named ''latitude_tm1'' hour 8] grid_exact =
     Inr [(hour, [(''latitude'', Float (Some 52)), (''longitude'', Float (Some 13)),
                  (''modis_LST'', Float (Some 300)), (''modis_time'', Datetime hour),
                  (''latitude_tm1_tm1'', Float (Some 7))])]"
    by code_simp
  show "variables (station_named ''latitude_tm1'' hour 8) = [(''latitude_tm1'', Float (Some 8))]"
    by (simp add: station_named_def)
  show "map_of [(''latitude'', Float (Some 52)), (''longitude'', Float (Some 13)),
           (''modis_LST'', Float (Some 300)), (''modis_time'', Datetime hour),
           (''latitude_tm1_tm1'', Float (Some 7))] ''latitude_tm1'' = None"
    by simp
qed

text \<open>
  Claim C8, as amended.  For a group whose variable columns bear none of the names the
  match-up writes or drops, every record of the table returned is indexed by the
  timestamp of its current row and holds the columns of the current row unsuffixed (its
  latitude, longitude and variables, then its matched value and matched time), followed
  by the variable columns of an anchor row with the suffix \<^verbatim>\<open>_tm1\<close>, and nothing
  else: the matched value, matched time, latitude and longitude of the anchor row are
  gone.  The records come in the order of the current rows in the input, those of one
  current row together.  For strictly increasing timestamps there is one record for
  every emitted pair of adjacent rows, and the index of the output is strictly
  increasing.
\<close>

theorem paired_record_columns_unreserved:
  assumes "\<forall>r \<in> set df_station. fst ` set (variables r) \<inter> set reserved_names = {}"
    and "match_station_with_modis df_station da_modis = Inr out"
  shows "out = concat (map (\<lambda>p. map (\<lambda>q. (datetime (fst p), spec_paired_columns (fst p) (snd q)))
                             (filter (\<lambda>q. datetime (fst q) = datetime (fst p))
                                (filter in_window (adjacent (annotated_frame df_station da_modis)))))
                    (filter emitted (adjacent (annotated_frame df_station da_modis)))) \<and>
         (sorted_wrt (<) (map datetime df_station) \<longrightarrow>
            out = map (\<lambda>p. (datetime (fst p), spec_paired_columns (fst p) (snd p)))
                    (filter emitted (adjacent (annotated_frame df_station da_modis))) \<and>
            sorted_wrt (<) (map fst out))"
proof (intro conjI impI)
  let ?R = "annotated_frame df_station da_modis"
  have free: "fst ` set (variables x) \<inter> set reserved_names = {}" if "x \<in> set ?R" for x
  proof -
    from variables_annotated_frame[OF that] obtain r
      where "r \<in> set df_station" "variables x = variables r" by auto
    with assms(1) show ?thesis by simp
  qed
  have cols: "paired_columns (fst p) (snd q) = spec_paired_columns (fst p) (snd q)"
    if "p \<in> set (adjacent ?R)" and "q \<in> set (adjacent ?R)" for p q
  proof -
    from that have pq: "(fst p, snd p) \<in> set (adjacent ?R)" "(fst q, snd q) \<in> set (adjacent ?R)"
      by simp_all
    have "fst p \<in> set ?R" by (rule adjacent_members(1)[OF pq(1)])
    moreover have "snd q \<in> set ?R" by (rule adjacent_members(2)[OF pq(2)])
    ultimately have "fst p \<in> set ?R" "snd q \<in> set ?R" .
    then show ?thesis
      by (intro paired_columns_spec free)
  qed
  have g: "concat (map (\<lambda>p. map (\<lambda>q. (datetime (fst p), paired_columns (fst p) (snd q)))
                             (filter (\<lambda>q. datetime (fst q) = datetime (fst p))
                                (filter in_window (adjacent ?R))))
                    (filter emitted (adjacent ?R))) =
           concat (map (\<lambda>p. map (\<lambda>q. (datetime (fst p), spec_paired_columns (fst p) (snd q)))
                             (filter (\<lambda>q. datetime (fst q) = datetime (fst p))
                                (filter in_window (adjacent ?R))))
                    (filter emitted (adjacent ?R)))"
    by (intro arg_cong[where f = concat] map_cong refl) (simp add: cols)
  from assms(2) show "out = concat (map (\<lambda>p. map (\<lambda>q. (datetime (fst p), spec_paired_columns (fst p) (snd q)))
                             (filter (\<lambda>q. datetime (fst q) = datetime (fst p))
                                (filter in_window (adjacent ?R))))
                    (filter emitted (adjacent ?R)))"
    unfolding match_station_with_modis_general g by simp
  assume s: "sorted_wrt (<) (map datetime df_station)"
  have m: "match_station_with_modis df_station da_modis =
        Inr (map (\<lambda>p. (datetime (fst p), paired_columns (fst p) (snd p)))
               (filter emitted (adjacent ?R)))"
    by (intro match_station_with_modis_distinct sorted_distinct_datetime s)
  have e: "map (\<lambda>p. (datetime (fst p), paired_columns (fst p) (snd p)))
               (filter emitted (adjacent ?R)) =
           map (\<lambda>p. (datetime (fst p), spec_paired_columns (fst p) (snd p)))
               (filter emitted (adjacent ?R))"
    by (rule map_cong[OF refl]) (simp add: cols)
  from assms(2) show o: "out = map (\<lambda>p. (datetime (fst p), spec_paired_columns (fst p) (snd p)))
                    (filter emitted (adjacent ?R))"
    unfolding m e by simp
  show "sorted_wrt (<) (map fst out)"
    unfolding o using sorted_current_index[OF s, of emitted da_modis] by (simp add: o_def)
qed

text \<open>
  The scenario of the specification: one output row, the third row with the temperature
  of the second as \<^verbatim>\<open>temperature_tm1\<close>.
\<close>

theorem paired_record_columns_unreserved_witness:
  "fst ` set (variables (station 0 20)) \<inter> set reserved_names = {} \<and>
   fst ` set (variables (station hour 21)) \<inter> set reserved_names = {} \<and>
   fst ` set (variables (station (3 * hour) 22)) \<inter> set reserved_names = {} \<and>
   sorted_wrt (<) (map datetime [station 0 20, station hour 21, station (3 * hour) 22]) \<and>
   match_station_with_modis [station 0 20, station hour 21, station (3 * hour) 22] grid_scenario =
     Inr [(3 * hour, [(''latitude'', Float (Some 52)), (''longitude'', Float (Some 13)),
               (''temperature'', Float (Some 22)), (''modis_LST'', Float (Some 301)),
               (''modis_time'', Datetime (3 * hour)), (''temperature_tm1'', Float (Some 21))])] \<and>
   [(3 * hour, [(''latitude'', Float (Some 52)), (''longitude'', Float (Some 13)),
               (''temperature'', Float (Some 22)), (''modis_LST'', Float (Some 301)),
               (''modis_time'', Datetime (3 * hour)), (''temperature_tm1'', Float (Some 21))])] =
     map (\<lambda>p. (datetime (fst p), spec_paired_columns (fst p) (snd p)))
       (filter emitted (adjacent (annotated_frame
          [station 0 20, station hour 21, station (3 * hour) 22] grid_scenario))) \<and>
   sorted_wrt (<) (map fst
     [(3 * hour, [(''latitude'', Float (Some 52)), (''longitude'', Float (Some 13)),
               (''temperature'', Float (Some 22)), (''modis_LST'', Float (Some 301)),
               (''modis_time'', Datetime (3 * hour)), (''temperature_tm1'', Float (Some 21))])])"
proof -
  have s: "sorted_wrt (<) (map datetime [station 0 20, station hour 21, station (3 * hour) 22])"
    by (simp add: station_def hour_def)
  have v: "fst ` set (variables (station 0 20)) \<inter> set reserved_names = {}"
    "fst ` set (variables (station hour 21)) \<inter> set reserved_names = {}"
    "fst ` set (variables (station (3 * hour) 22)) \<inter> set reserved_names = {}"
    by (simp_all add: station_def reserved_names_def)
  then have a: "\<forall>r \<in> set [station 0 20, station hour 21, station (3 * hour) 22].
                  fst ` set (variables r) \<inter> set reserved_names = {}"
    by simp
  have e: "match_station_with_modis [station 0 20, station hour 21, station (3 * hour) 22] grid_scenario =
     Inr [(3 * hour, [(''latitude'', Float (Some 52)), (''longitude'', Float (Some 13)),
               (''temperature'', Float (Some 22)), (''modis_LST'', Float (Some 301)),
               (''modis_time'', Datetime (3 * hour)), (''temperature_tm1'', Float (Some 21))])]"
    by code_simp
  from paired_record_columns_unreserved[OF a e] s v e
  show ?thesis by blast
qed

lemma reindex_pairs:
  "concat (map (\<lambda>p. map (F p) (filter (Q p) (map h A))) (filter P (map h A))) =
   concat (map (\<lambda>i. map (\<lambda>j. F (h i) (h j)) (filter (\<lambda>j. Q (h i) (h j)) A))
                (filter (\<lambda>i. P (h i)) A))"
proof -
  have 1: "filter P (map h A) = map h (filter (\<lambda>i. P (h i)) A)"
    by (induction A) simp_all
  have 2: "map (F p) (filter (Q p) (map h A)) =
           map (\<lambda>j. F p (h j)) (filter (\<lambda>j. Q p (h j)) A)" for p
    by (induction A) simp_all
  show ?thesis
    unfolding 1 2 map_map o_def ..
qed

lemma emitted_window_pairs:
  "filter emitted (adjacent R) = filter (\<lambda>p. modis_LST (fst p) \<noteq> None) (filter in_window (adjacent R))"
  by (induction "adjacent R") (auto simp: emitted_def cong: filter_cong)

text \<open>
  Claim C7, as amended.  The timestamps are not validated: whatever their order or
  multiplicity, the window classification proceeds on the rows in the order given.  With
  \<open>A\<close> the positions selected as anchors, the frame of the current rows holds the rows
  at the positions \<open>i + 1\<close> for \<open>i\<close> in \<open>A\<close>, and \<^verbatim>\<open>set_index\<close> gives the
  anchor row at \<open>i\<close> the timestamp of the row at \<open>i + 1\<close>, without error.  Whenever the
  match-up returns a table, it holds, for every \<open>i\<close> in \<open>A\<close> whose current row has a
  defined matched value, the row at \<open>i + 1\<close> joined with the anchor row at every \<open>j\<close>
  in \<open>A\<close> whose successor bears the same timestamp: with \<open>i\<close> itself, and with others
  when timestamps repeat.
\<close>

theorem match_station_with_modis_pairs_by_position:
  "(let R = annotated_frame df_station da_modis;
        mask_t1 = fst (get_matching_and_prev (map offset_hrs R));
        mask_t0 = snd (get_matching_and_prev (map offset_hrs R));
        A = filter (\<lambda>i. mask_t0 ! i) [0 ..< length R]
    in loc_mask R mask_t1 = map (\<lambda>i. (datetime (R ! (i + 1)), R ! (i + 1))) A \<and>
       set_index (loc_mask R mask_t0) (map fst (loc_mask R mask_t1)) =
         Inr (map (\<lambda>i. (datetime (R ! (i + 1)), R ! i)) A) \<and>
       (\<forall>out. match_station_with_modis df_station da_modis = Inr out \<longrightarrow>
          out = concat (map (\<lambda>i. map (\<lambda>j. (datetime (R ! (i + 1)),
                                             paired_columns (R ! (i + 1)) (R ! j)))
                                    (filter (\<lambda>j. datetime (R ! (j + 1)) = datetime (R ! (i + 1))) A))
                           (filter (\<lambda>i. modis_LST (R ! (i + 1)) \<noteq> None) A))))"
proof -
  define R where "R = annotated_frame df_station da_modis"
  define A where "A = filter (\<lambda>i. snd (get_matching_and_prev (map offset_hrs R)) ! i) [0 ..< length R]"
  define h where "h = (\<lambda>i. (R ! (i + 1), R ! i))"
  have W: "filter in_window (adjacent R) = map h A"
    unfolding A_def h_def by (rule window_pairs_index)
  have t1: "loc_mask R (fst (get_matching_and_prev (map offset_hrs R))) =
            map (\<lambda>i. (datetime (R ! (i + 1)), R ! (i + 1))) A"
    unfolding loc_mask_t1 W h_def by (simp add: o_def)
  have t0: "set_index (loc_mask R (snd (get_matching_and_prev (map offset_hrs R))))
              (map fst (loc_mask R (fst (get_matching_and_prev (map offset_hrs R))))) =
            Inr (map (\<lambda>i. (datetime (R ! (i + 1)), R ! i)) A)"
    unfolding set_index_t0 W h_def by (simp add: o_def)
  have "match_station_with_modis df_station da_modis =
        Inr (concat (map (\<lambda>p. map (\<lambda>q. (datetime (fst p), paired_columns (fst p) (snd q)))
                             (filter (\<lambda>q. datetime (fst q) = datetime (fst p)) (map h A)))
                    (filter (\<lambda>p. modis_LST (fst p) \<noteq> None) (map h A))))"
    unfolding match_station_with_modis_general R_def[symmetric] emitted_window_pairs W ..
  also have "concat (map (\<lambda>p. map (\<lambda>q. (datetime (fst p), paired_columns (fst p) (snd q)))
                             (filter (\<lambda>q. datetime (fst q) = datetime (fst p)) (map h A)))
                    (filter (\<lambda>p. modis_LST (fst p) \<noteq> None) (map h A))) =
        concat (map (\<lambda>i. map (\<lambda>j. (datetime (R ! (i + 1)), paired_columns (R ! (i + 1)) (R ! j)))
                                    (filter (\<lambda>j. datetime (R ! (j + 1)) = datetime (R ! (i + 1))) A))
                           (filter (\<lambda>i. modis_LST (R ! (i + 1)) \<noteq> None) A))"
    unfolding reindex_pairs[of "\<lambda>p q. (datetime (fst p), paired_columns (fst p) (snd q))"
        "\<lambda>p q. datetime (fst q) = datetime (fst p)" h A "\<lambda>p. modis_LST (fst p) \<noteq> None"]
    by (simp add: h_def)
  finally have out: "match_station_with_modis df_station da_modis =
        Inr (concat (map (\<lambda>i. map (\<lambda>j. (datetime (R ! (i + 1)), paired_columns (R ! (i + 1)) (R ! j)))
                                    (filter (\<lambda>j. datetime (R ! (j + 1)) = datetime (R ! (i + 1))) A))
                           (filter (\<lambda>i. modis_LST (R ! (i + 1)) \<noteq> None) A)))" .
  show ?thesis
    unfolding Let_def R_def[symmetric] A_def[symmetric]
    using t1 t0 out by simp
qed

text \<open>
  Three rows with one timestamp: the second and the third row are each joined with the
  first and with the second.
\<close>

theorem match_station_with_modis_pairs_by_position_witness:
  "match_station_with_modis [station 0 20, station 0 21, station 0 22] grid_exact =
     Inr [(0, [(''latitude'', Float (Some 52)), (''longitude'', Float (Some 13)),
               (''temperature'', Float (Some 21)), (''modis_LST'', Float (Some 300)),
               (''modis_time'', Datetime 0), (''temperature_tm1'', Float (Some 20))]),
          (0, [(''latitude'', Float (Some 52)), (''longitude'', Float (Some 13)),
               (''temperature'', Float (Some 21)), (''modis_LST'', Float (Some 300)),
               (''modis_time'', Datetime 0), (''temperature_tm1'', Float (Some 21))]),
          (0, [(''latitude'', Float (Some 52)), (''longitude'', Float (Some 13)),
               (''temperature'', Float (Some 22)), (''modis_LST'', Float (Some 300)),
               (''modis_time'', Datetime 0), (''temperature_tm1'', Float (Some 20))]),
          (0, [(''latitude'', Float (Some 52)), (''longitude'', Float (Some 13)),
               (''temperature'', Float (Some 22)), (''modis_LST'', Float (Some 300)),
               (''modis_time'', Datetime 0), (''temperature_tm1'', Float (Some 21))])] \<and>
   (let R = annotated_frame [station 0 20, station 0 21, station 0 22] grid_exact;
        mask_t1 = fst (get_matching_and_prev (map offset_hrs R));
        mask_t0 = snd (get_matching_and_prev (map offset_hrs R));
        A = filter (\<lambda>i. mask_t0 ! i) [0 ..< length R]
    in A = [0, 1] \<and>
       loc_mask R mask_t1 = map (\<lambda>i. (datetime (R ! (i + 1)), R ! (i + 1))) A \<and>
       set_index (loc_mask R mask_t0) (map fst (loc_mask R mask_t1)) =
         Inr (map (\<lambda>i. (datetime (R ! (i + 1)), R ! i)) A) \<and>
       [(0, [(''latitude'', Float (Some 52)), (''longitude'', Float (Some 13)),
               (''temperature'', Float (Some 21)), (''modis_LST'', Float (Some 300)),
               (''modis_time'', Datetime 0), (''temperature_tm1'', Float (Some 20))]),
          (0, [(''latitude'', Float (Some 52)), (''longitude'', Float (Some 13)),
               (''temperature'', Float (Some 21)), (''modis_LST'', Float (Some 300)),
               (''modis_time'', Datetime 0), (''temperature_tm1'', Float (Some 21))]),
          (0, [(''latitude'', Float (Some 52)), (''longitude'', Float (Some 13)),
               (''temperature'', Float (Some 22)), (''modis_LST'', Float (Some 300)),
               (''modis_time'', Datetime 0), (''temperature_tm1'', Float (Some 20))]),
          (0, [(''latitude'', Float (Some 52)), (''longitude'', Float (Some 13)),
               (''temperature'', Float (Some 22)), (''modis_LST'', Float (Some 300)),
               (''modis_time'', Datetime 0), (''temperature_tm1'', Float (Some 21))])] =
         concat (map (\<lambda>i. map (\<lambda>j. (datetime (R ! (i + 1)),
                                             paired_columns (R ! (i + 1)) (R ! j)))
                                    (filter (\<lambda>j. datetime (R ! (j + 1)) = datetime (R ! (i + 1))) A))
                           (filter (\<lambda>i. modis_LST (R ! (i + 1)) \<noteq> None) A)))"
proof -
  have e: "match_station_with_modis [station 0 20, station 0 21, station 0 22] grid_exact =
     Inr [(0, [(''latitude'', Float (Some 52)), (''longitude'', Float (Some 13)),
               (''temperature'', Float (Some 21)), (''modis_LST'', Float (Some 300)),
               (''modis_time'', Datetime 0), (''temperature_tm1'', Float (Some 20))]),
          (0, [(''latitude'', Float (Some 52)), (''longitude'', Float (Some 13)),
               (''temperature'', Float (Some 21)), (''modis_LST'', Float (Some 300)),
               (''modis_time'', Datetime 0), (''temperature_tm1'', Float (Some 21))]),
          (0, [(''latitude'', Float (Some 52)), (''longitude'', Float (Some 13)),
               (''temperature'', Float (Some 22)), (''modis_LST'', Float (Some 300)),
               (''modis_time'', Datetime 0), (''temperature_tm1'', Float (Some 20))]),
          (0, [(''latitude'', Float (Some 52)), (''longitude'', Float (Some 13)),
               (''temperature'', Float (Some 22)), (''modis_LST'', Float (Some 300)),
               (''modis_time'', Datetime 0), (''temperature_tm1'', Float (Some 21))])]"
    by code_simp
  have a: "filter (\<lambda>i. snd (get_matching_and_prev (map offset_hrs
               (annotated_frame [station 0 20, station 0 21, station 0 22] grid_exact))) ! i)
             [0 ..< length (annotated_frame [station 0 20, station 0 21, station 0 22] grid_exact)] =
           [0, 1]"
    by code_simp
  show ?thesis
    using match_station_with_modis_pairs_by_position
            [of "[station 0 20, station 0 21, station 0 22]" grid_exact, unfolded Let_def] e a
    unfolding Let_def by blast
qed

end
